theory Spec2Isabelle
  imports Complex_Main
begin

section \<open>The Deribit REST mixin: data model\<close>

text \<open>
  The source is \<^verbatim>\<open>cryptofeed/exchanges/mixins/deribit_rest.py\<close>: the class
  \<^verbatim>\<open>Deribit(RestAPI)\<close> with the trade paginator \<^verbatim>\<open>_get_trades\<close>, the normalizer
  \<^verbatim>\<open>_trade_normalization\<close> and the order-book fetch \<^verbatim>\<open>_book\<close>. Python names that
  start with an underscore lose it here (\<open>get_trades\<close>, \<open>trade_normalization\<close>,
  \<open>book\<close>).

  Exceptions are values: a function that can raise returns \<open>error + 'a\<close>.
\<close>

datatype error =
    KeyError              \<comment> \<open>\<^verbatim>\<open>r.headers['Retry-After']\<close> without that header\<close>
  | ValueError            \<comment> \<open>\<^verbatim>\<open>int(s)\<close> on a string that is no integer, \<^verbatim>\<open>sleep\<close> of a negative length\<close>
  | UnboundLocalError     \<comment> \<open>a local variable read before any assignment\<close>
  | FatalHTTPError        \<comment> \<open>raised by \<^verbatim>\<open>self._handle_error(r)\<close>\<close>

subsection \<open>The builtin \<^verbatim>\<open>int(...)\<close> on JSON scalars\<close>

text \<open>
  A JSON scalar as \<^verbatim>\<open>r.json()\<close> delivers it in the places the source coerces: an integer
  number or a string. \<^verbatim>\<open>int\<close> is the identity on the first and reads the second as a
  decimal literal: surrounding whitespace is stripped, one sign is allowed, single
  underscores may separate digits, anything else raises \<^verbatim>\<open>ValueError\<close>. (ASCII digits and
  ASCII whitespace only: characters are bytes here.)
\<close>

datatype json = JInt int | JStr string

definition is_space :: "char \<Rightarrow> bool" where
  "is_space c \<longleftrightarrow> c \<in> set [CHR '' '', CHR 0x09, CHR 0x0A, CHR 0x0B, CHR 0x0C, CHR 0x0D]"

definition strip :: "string \<Rightarrow> string" where
  "strip s = rev (dropWhile is_space (rev (dropWhile is_space s)))"

definition digit_val :: "char \<Rightarrow> nat option" where
  "digit_val c = (let n = (of_char c :: nat) in if 48 \<le> n \<and> n \<le> 57 then Some (n - 48) else None)"

text \<open>\<open>digits acc cs\<close> reads the rest of a literal after a digit; \<open>acc\<close> is the value so far.\<close>

fun digits :: "nat \<Rightarrow> string \<Rightarrow> nat option" where
  "digits acc [] = Some acc"
| "digits acc [c] = (case digit_val c of None \<Rightarrow> None | Some v \<Rightarrow> Some (10 * acc + v))"
| "digits acc (c # d # ds) =
     (if c = CHR ''_'' then
        (case digit_val d of None \<Rightarrow> None | Some v \<Rightarrow> digits (10 * acc + v) ds)
      else
        (case digit_val c of None \<Rightarrow> None | Some v \<Rightarrow> digits (10 * acc + v) (d # ds)))"

definition unsigned :: "string \<Rightarrow> nat option" where
  "unsigned s = (case s of [] \<Rightarrow> None
                 | c # cs \<Rightarrow> (case digit_val c of None \<Rightarrow> None | Some v \<Rightarrow> digits v cs))"

definition int_of_string :: "string \<Rightarrow> error + int" where
  "int_of_string s =
     (case strip s of
        [] \<Rightarrow> Inl ValueError
      | c # cs \<Rightarrow>
          if c = CHR ''-'' then
            (case unsigned cs of None \<Rightarrow> Inl ValueError | Some n \<Rightarrow> Inr (- int n))
          else if c = CHR ''+'' then
            (case unsigned cs of None \<Rightarrow> Inl ValueError | Some n \<Rightarrow> Inr (int n))
          else
            (case unsigned (c # cs) of None \<Rightarrow> Inl ValueError | Some n \<Rightarrow> Inr (int n)))"

fun py_int :: "json \<Rightarrow> error + int" where
  "py_int (JInt i) = Inr i"
| "py_int (JStr s) = int_of_string s"

subsection \<open>Trades\<close>

text \<open>
  One element of \<^verbatim>\<open>r.json()["result"]["trades"]\<close>, with the six keys the source reads.
  Timestamps are integer milliseconds; amounts and prices are JSON numbers, which the
  source only copies and compares.
\<close>

record raw_trade =
  timestamp :: int
  instrument_name :: string
  trade_id :: json
  direction :: string
  amount :: rat
  price :: rat

datatype side = BUY | SELL

text \<open>\<^verbatim>\<open>self.id\<close>, the constant \<^verbatim>\<open>DERIBIT\<close> of \<^verbatim>\<open>cryptofeed.defines\<close>.\<close>

datatype feed = DERIBIT

text \<open>
  The dictionary that \<^verbatim>\<open>_trade_normalization\<close> returns, with its seven keys (prefixed
  \<open>t_\<close>: \<open>id\<close> is taken in HOL). The timestamp is whatever the collaborator
  \<^verbatim>\<open>self.timestamp_normalize\<close> returns, the type \<open>'t\<close>.
\<close>

record 't trade =
  t_timestamp :: 't
  t_symbol :: string
  t_id :: int
  t_feed :: feed
  t_side :: side
  t_amount :: rat
  t_price :: rat

text \<open>
  \<^verbatim>\<open>_trade_normalization(self, trade)\<close>. The collaborator \<^verbatim>\<open>timestamp_normalize\<close> is the
  parameter \<open>tn\<close>. The only expression that can raise is \<^verbatim>\<open>int(trade["trade_id"])\<close>.
\<close>

definition trade_normalization :: "(int \<Rightarrow> 't) \<Rightarrow> raw_trade \<Rightarrow> error + 't trade" where
  "trade_normalization tn trade =
     (case py_int (trade_id trade) of
        Inl e \<Rightarrow> Inl e
      | Inr i \<Rightarrow> Inr \<lparr> t_timestamp = tn (timestamp trade),
                      t_symbol = instrument_name trade,
                      t_id = i,
                      t_feed = DERIBIT,
                      t_side = (if direction trade = ''buy'' then BUY else SELL),
                      t_amount = amount trade,
                      t_price = price trade \<rparr>)"

text \<open>
  The comprehension \<^verbatim>\<open>[self._trade_normalization(x) for x in data]\<close>: left to right, the
  first exception ends it.
\<close>

fun normalize_page :: "(int \<Rightarrow> 't) \<Rightarrow> raw_trade list \<Rightarrow> error + 't trade list" where
  "normalize_page tn [] = Inr []"
| "normalize_page tn (x # xs) =
     (case trade_normalization tn x of
        Inl e \<Rightarrow> Inl e
      | Inr t \<Rightarrow> (case normalize_page tn xs of Inl e \<Rightarrow> Inl e | Inr ts \<Rightarrow> Inr (t # ts)))"

section \<open>Requests, responses and what a run does\<close>

text \<open>
  The three URLs the source builds, by their varying parts. \<open>Between s e i\<close> is
  \<^verbatim>\<open>get_last_trades_by_instrument_and_time?&start_timestamp=s&end_timestamp=e&instrument_name=i&include_old=true&count=1000\<close>,
  \<open>Last i\<close> is \<^verbatim>\<open>get_last_trades_by_instrument?instrument_name=i&include_old=true&count=1000\<close>,
  \<open>OrderBook i\<close> is \<^verbatim>\<open>get_order_book?depth=10000&instrument_name=i\<close>.
\<close>

datatype query = Between int int string | Last string | OrderBook string

text \<open>
  What the source reads of a \<^verbatim>\<open>requests\<close> response: the status code, the value of the
  \<^verbatim>\<open>Retry-After\<close> header where the response has one, and the decoded body (for trades the
  list \<^verbatim>\<open>r.json()["result"]["trades"]\<close>, for the book the two lists
  \<^verbatim>\<open>data["result"]["bids"]\<close> and \<^verbatim>\<open>data["result"]["asks"]\<close> of price and amount
  pairs).
\<close>

record 'b response =
  status_code :: int
  retry_after :: "string option"
  body :: 'b

type_synonym trades_response = "raw_trade list response"

record book_body =
  bids :: "(rat \<times> rat) list"
  asks :: "(rat \<times> rat) list"

type_synonym book_response = "book_body response"

text \<open>The three \<^verbatim>\<open>log.warning\<close> calls, with the values they format.\<close>

datatype warning =
    Status500                          \<comment> \<open>"500 for URL ..."\<close>
  | NoData "int option" "int option"   \<comment> \<open>"No data for range start - end"\<close>
  | Saturated "int option"             \<comment> \<open>"number of trades exceeds exchange time window ..."\<close>

text \<open>
  The observable steps of a run, in order: a GET, a \<^verbatim>\<open>sleep\<close> of so many seconds, a
  warning, a page handed to the consumer by \<^verbatim>\<open>yield\<close>.
\<close>

datatype 't event = Request query | Sleep rat | Warning warning | Yield "'t trade list"

text \<open>
  How a run ends. The server is a list of responses, one taken by each call of
  \<^verbatim>\<open>helper\<close> (the decorator \<^verbatim>\<open>request_retry\<close> around it is defined in
  \<^verbatim>\<open>cryptofeed.rest\<close>, not in this file, and acts inside that call; the loops see only
  the response the call returns). A run that has used the
  whole list is still waiting for the answer to its last request: \<open>Awaiting\<close>. That is
  how a loop that never ends shows here, on every finite list.
\<close>

datatype 'a outcome = Returned 'a | Raised error | Awaiting

type_synonym ('t, 'a) run = "'t event list \<times> 'a outcome"

definition prepend :: "'t event list \<Rightarrow> ('t, 'a) run \<Rightarrow> ('t, 'a) run" where
  "prepend evs r = (evs @ fst r, snd r)"

definition REQUEST_LIMIT :: nat where
  "REQUEST_LIMIT = 1000"

text \<open>\<^verbatim>\<open>RATE_LIMIT_SLEEP = 0.2\<close>, in seconds.\<close>

definition RATE_LIMIT_SLEEP :: rat where
  "RATE_LIMIT_SLEEP = 2 / 10"

text \<open>\<^verbatim>\<open>time.sleep(secs)\<close> raises \<^verbatim>\<open>ValueError\<close> on a negative length.\<close>

definition sleep :: "rat \<Rightarrow> error + 't event" where
  "sleep secs = (if secs < 0 then Inl ValueError else Inr (Sleep secs))"

text \<open>\<^verbatim>\<open>sleep(int(r.headers['Retry-After']))\<close>.\<close>

definition sleep_retry_after :: "'b response \<Rightarrow> error + 't event" where
  "sleep_retry_after r =
     (case retry_after r of
        None \<Rightarrow> Inl KeyError
      | Some s \<Rightarrow> (case int_of_string s of
                    Inl e \<Rightarrow> Inl e
                  | Inr n \<Rightarrow> sleep (of_int n)))"

text \<open>
  Modelled from the spec: \<^verbatim>\<open>self._handle_error(r)\<close>, a method of \<^verbatim>\<open>RestAPI\<close> in
  \<^verbatim>\<open>cryptofeed.rest\<close>, is not in the source file. For any status other than 200, 429 and
  500 the spec says "fatal: hand the response to an error-reporting collaborator and fail
  the call; not retried". The call fails with \<open>FatalHTTPError\<close>.
\<close>

definition handle_error :: "'b response \<Rightarrow> error" where
  "handle_error r = FatalHTTPError"

section \<open>The trade paginator\<close>

text \<open>
  A cursor or bound is \<^verbatim>\<open>None\<close> or an integer. Python's truth test on it, as in
  \<^verbatim>\<open>if start and end\<close> and \<^verbatim>\<open>not start\<close>: \<^verbatim>\<open>None\<close> and \<^verbatim>\<open>0\<close> are false.
\<close>

fun truthy :: "int option \<Rightarrow> bool" where
  "truthy None = False"
| "truthy (Some n) = (n \<noteq> 0)"

text \<open>The inner function \<^verbatim>\<open>helper(start, end)\<close> of \<^verbatim>\<open>_get_trades\<close>: the query it sends.\<close>

fun helper :: "string \<Rightarrow> int option \<Rightarrow> int option \<Rightarrow> query" where
  "helper instrument (Some s) (Some e) =
     (if truthy (Some s) \<and> truthy (Some e) then Between s e instrument else Last instrument)"
| "helper instrument start end = Last instrument"

text \<open>
  Lines 68 to 77: the warnings and the new value of \<^verbatim>\<open>start\<close> for the raw page
  \<^verbatim>\<open>data\<close>. \<^verbatim>\<open>data[-1]["timestamp"] == start\<close> is false when \<^verbatim>\<open>start\<close> is \<^verbatim>\<open>None\<close>;
  \<^verbatim>\<open>start += 1\<close> runs only when \<^verbatim>\<open>start\<close> is that integer.
\<close>

definition advance :: "int option \<Rightarrow> int option \<Rightarrow> raw_trade list \<Rightarrow> warning list \<times> int option" where
  "advance start end data =
     (if data = [] then ([NoData start end], start)
      else if Some (timestamp (last data)) = start then
        ([Saturated start], map_option (\<lambda>s. s + 1) start)
      else ([], Some (timestamp (last data))))"

text \<open>
  The \<^verbatim>\<open>while True\<close> loop of \<^verbatim>\<open>_get_trades\<close>, lines 52 to 84, one response per
  iteration. \<^verbatim>\<open>retry\<close> is a parameter as in the source, where only the decorator of
  \<^verbatim>\<open>helper\<close> receives it: no line of the loop reads it.
\<close>

fun trades_loop ::
  "(int \<Rightarrow> 't) \<Rightarrow> string \<Rightarrow> int option \<Rightarrow> rat \<Rightarrow> int option \<Rightarrow> int option
     \<Rightarrow> trades_response list \<Rightarrow> ('t, unit) run" where
  "trades_loop tn instrument retry retry_wait start end [] =
     ([Request (helper instrument start end)], Awaiting)"
| "trades_loop tn instrument retry retry_wait start end (r # rs) =
     (if status_code r = 429 then
        (case sleep_retry_after r of
           Inl e \<Rightarrow> ([Request (helper instrument start end)], Raised e)
         | Inr ev \<Rightarrow>
             prepend [Request (helper instrument start end), ev]
               (trades_loop tn instrument retry retry_wait start end rs))
      else if status_code r = 500 then
        (case sleep retry_wait of
           Inl e \<Rightarrow> ([Request (helper instrument start end), Warning Status500], Raised e)
         | Inr ev \<Rightarrow>
             prepend [Request (helper instrument start end), Warning Status500, ev]
               (trades_loop tn instrument retry retry_wait start end rs))
      else if status_code r \<noteq> 200 then
        ([Request (helper instrument start end)], Raised (handle_error r))
      else
        (let data = body r;
             (warnings, start') = advance start end data;
             evs = [Request (helper instrument start end), Sleep RATE_LIMIT_SLEEP]
                     @ map Warning warnings
         in case normalize_page tn data of
              Inl e \<Rightarrow> (evs, Raised e)
            | Inr page \<Rightarrow>
                if length data < REQUEST_LIMIT \<or> \<not> truthy start' \<or> \<not> truthy end then
                  (evs @ [Yield page], Returned ())
                else
                  prepend (evs @ [Yield page])
                    (trades_loop tn instrument retry retry_wait start' end rs)))"

text \<open>
  Lines 33 to 43 of \<^verbatim>\<open>_get_trades\<close>: the two bounds the loop starts from. A date is
  \<^verbatim>\<open>None\<close> (or another false value) or a value of some type \<open>'d\<close>. The library calls are
  parameters: \<open>ts\<close> is \<^verbatim>\<open>self._timestamp\<close> followed by the nanosecond count of the
  \<^verbatim>\<open>pd.Timestamp\<close>, \<open>now\<close> is that count for \<^verbatim>\<open>pd.Timestamp.utcnow()\<close>, and \<open>ms\<close> is
  \<^verbatim>\<open>int(x.timestamp() * 1000)\<close>, which pandas computes in floating point (\<open>epoch_ms\<close>
  below). Subtracting \<^verbatim>\<open>pd.Timedelta(nanoseconds=1)\<close> is exact: one less in the count.
\<close>

definition window ::
  "('d \<Rightarrow> int) \<Rightarrow> int \<Rightarrow> (int \<Rightarrow> int) \<Rightarrow> 'd option \<Rightarrow> 'd option \<Rightarrow> int option \<times> int option" where
  "window ts now ms start_date end_date =
     (case start_date of
        None \<Rightarrow> (None, None)
      | Some s \<Rightarrow>
          (let end_ns = (case end_date of None \<Rightarrow> now | Some e \<Rightarrow> ts e)
           in (Some (ms (ts s)), Some (ms (end_ns - 1)))))"

definition get_trades ::
  "('d \<Rightarrow> int) \<Rightarrow> int \<Rightarrow> (int \<Rightarrow> int) \<Rightarrow> (int \<Rightarrow> 't) \<Rightarrow> string \<Rightarrow> 'd option \<Rightarrow> 'd option
     \<Rightarrow> int option \<Rightarrow> rat \<Rightarrow> trades_response list \<Rightarrow> ('t, unit) run" where
  "get_trades ts now ms tn instrument start_date end_date retry retry_wait rs =
     (case window ts now ms start_date end_date of
        (start, end) \<Rightarrow> trades_loop tn instrument retry retry_wait start end rs)"

subsection \<open>The conversion to milliseconds\<close>

text \<open>
  The source converts a bound by \<^verbatim>\<open>int(x.timestamp() * 1000)\<close>, where \<^verbatim>\<open>x\<close> is a
  \<^verbatim>\<open>pd.Timestamp\<close>. That is floating-point arithmetic of pandas and Python, outside the
  source file; the definitions below follow it step by step. A Python float is an IEEE
  754 binary64 number, here the rational it denotes. \<open>float64 x\<close> is the binary64 number
  nearest to \<open>x\<close>, ties to the even significand, for a magnitude in the normal range
  (neither overflow nor subnormals: the values here are counts of nanoseconds, seconds
  and milliseconds). Every float operation is the exact operation followed by
  \<open>float64\<close>.
\<close>

text \<open>The number of binary digits of \<open>n\<close>.\<close>

fun bitlen :: "nat \<Rightarrow> nat" where
  "bitlen n = (if n = 0 then 0 else Suc (bitlen (n div 2)))"

declare bitlen.simps [simp del]

text \<open>The exponent \<open>e\<close> with \<open>2 ^ e \<le> \<bar>x\<bar> < 2 ^ (e + 1)\<close>, for \<open>x \<noteq> 0\<close>.\<close>

definition binade :: "rat \<Rightarrow> int" where
  "binade x =
     (if 1 \<le> \<bar>x\<bar> then int (bitlen (nat \<lfloor>\<bar>x\<bar>\<rfloor>)) - 1
      else - int (bitlen (nat \<lceil>1 / \<bar>x\<bar>\<rceil> - 1)))"

definition pow2 :: "int \<Rightarrow> rat" where
  "pow2 k = (if 0 \<le> k then 2 ^ nat k else 1 / 2 ^ nat (- k))"

definition round_half_even :: "rat \<Rightarrow> int" where
  "round_half_even x =
     (let f = \<lfloor>x\<rfloor>; d = x - of_int f
      in if d < 1 / 2 then f else if 1 / 2 < d then f + 1 else if even f then f else f + 1)"

definition float64 :: "rat \<Rightarrow> rat" where
  "float64 x =
     (if x = 0 then 0
      else let ulp = pow2 (binade x - 52) in of_int (round_half_even (x / ulp)) * ulp)"

text \<open>
  \<^verbatim>\<open>round(x, 6)\<close> on a float: the float nearest to \<open>x\<close> rounded to six decimal places,
  halves to even.
\<close>

definition py_round6 :: "rat \<Rightarrow> rat" where
  "py_round6 x = float64 (of_int (round_half_even (x * 1000000)) / 1000000)"

text \<open>
  \<^verbatim>\<open>Timestamp.timestamp()\<close> of pandas, \<^verbatim>\<open>round(self.value / 1e9, 6)\<close>, on the nanosecond
  count \<open>v\<close> of the timestamp: the integer becomes a float, is divided by the float
  \<^verbatim>\<open>1e9\<close>, and the quotient is rounded to microseconds.
\<close>

definition pd_timestamp :: "int \<Rightarrow> rat" where
  "pd_timestamp v = py_round6 (float64 (float64 (of_int v) / 1000000000))"

text \<open>\<^verbatim>\<open>int(x)\<close> on a float truncates towards zero.\<close>

definition py_trunc :: "rat \<Rightarrow> int" where
  "py_trunc x = (if 0 \<le> x then \<lfloor>x\<rfloor> else \<lceil>x\<rceil>)"

text \<open>\<^verbatim>\<open>int(x.timestamp() * 1000)\<close> for the timestamp of nanosecond count \<open>v\<close>.\<close>

definition epoch_ms :: "int \<Rightarrow> int" where
  "epoch_ms v = py_trunc (float64 (pd_timestamp v * 1000))"

section \<open>The order book\<close>

text \<open>
  \<^verbatim>\<open>SortedDict\<close> of \<^verbatim>\<open>sortedcontainers\<close>: a dictionary whose iteration goes through the
  keys in ascending order. Here it is the list of its items in that order; \<open>sd\<close> is the
  empty one and \<open>setitem k v d\<close> is \<^verbatim>\<open>d[k] = v\<close>.
\<close>

type_synonym sorted_dict = "(rat \<times> rat) list"

definition sd :: sorted_dict where
  "sd = []"

fun setitem :: "rat \<Rightarrow> rat \<Rightarrow> sorted_dict \<Rightarrow> sorted_dict" where
  "setitem k v [] = [(k, v)]"
| "setitem k v ((k', v') # d) =
     (if k < k' then (k, v) # (k', v') # d
      else if k = k' then (k, v) # d
      else (k', v') # setitem k v d)"

text \<open>\<^verbatim>\<open>d[k]\<close> where the key is there.\<close>

definition getitem :: "sorted_dict \<Rightarrow> rat \<Rightarrow> rat option" where
  "getitem d k = map_of d k"

text \<open>The value \<^verbatim>\<open>{BID: sd(), ASK: sd()}\<close> stored under the symbol.\<close>

record sides =
  BID :: sorted_dict
  ASK :: sorted_dict

text \<open>The inner loop of lines 130 to 132 for one side, \<^verbatim>\<open>ret[symbol][side][price] = amount\<close>
  for each entry \<open>(p, a)\<close> of price and amount (\<open>price\<close> and \<open>amount\<close> name fields here).\<close>

fun fill :: "(rat \<times> rat) list \<Rightarrow> sorted_dict \<Rightarrow> sorted_dict" where
  "fill [] d = d"
| "fill ((p, a) # entries) d = fill entries (setitem p a d)"

text \<open>
  The \<^verbatim>\<open>while True\<close> loop of \<^verbatim>\<open>_book\<close>, lines 111 to 127. It ends by \<^verbatim>\<open>break\<close> in two
  places: after \<^verbatim>\<open>data = r.json()\<close>, and in the 500 branch when \<^verbatim>\<open>retry == 0\<close>, where
  nothing has been assigned to \<^verbatim>\<open>data\<close>. The result is the value of \<^verbatim>\<open>data\<close> after the
  loop, \<open>None\<close> for a variable still unbound. (No page is yielded here: the events are
  of type \<open>unit event\<close>.)
\<close>

fun book_loop ::
  "int option \<Rightarrow> rat \<Rightarrow> string \<Rightarrow> book_response list \<Rightarrow> (unit, book_body option) run" where
  "book_loop retry retry_wait symbol [] = ([Request (OrderBook symbol)], Awaiting)"
| "book_loop retry retry_wait symbol (r # rs) =
     (if status_code r = 429 then
        (case sleep_retry_after r of
           Inl e \<Rightarrow> ([Request (OrderBook symbol)], Raised e)
         | Inr ev \<Rightarrow>
             prepend [Request (OrderBook symbol), ev] (book_loop retry retry_wait symbol rs))
      else if status_code r = 500 then
        (case sleep retry_wait of
           Inl e \<Rightarrow> ([Request (OrderBook symbol), Warning Status500], Raised e)
         | Inr ev \<Rightarrow>
             if retry = Some 0 then
               ([Request (OrderBook symbol), Warning Status500, ev], Returned None)
             else
               prepend [Request (OrderBook symbol), Warning Status500, ev]
                 (book_loop retry retry_wait symbol rs))
      else if status_code r \<noteq> 200 then
        ([Request (OrderBook symbol)], Raised (handle_error r))
      else
        ([Request (OrderBook symbol)], Returned (Some (body r))))"

text \<open>
  \<^verbatim>\<open>_book(self, symbol, retry, retry_wait)\<close>. The collaborator
  \<^verbatim>\<open>self.info.std_symbol_to_exchange_symbol\<close> is the parameter \<open>exchange_symbol\<close>. The
  result \<^verbatim>\<open>ret\<close> is a dictionary with the one key \<^verbatim>\<open>symbol\<close>, whose two sides start
  as \<^verbatim>\<open>sd()\<close> and are filled after the loop. Line 130 reads \<^verbatim>\<open>data\<close> first: unbound,
  that raises \<^verbatim>\<open>UnboundLocalError\<close> and nothing is returned.
\<close>

definition book ::
  "(string \<Rightarrow> string) \<Rightarrow> string \<Rightarrow> int option \<Rightarrow> rat \<Rightarrow> book_response list
     \<Rightarrow> (unit, string \<rightharpoonup> sides) run" where
  "book exchange_symbol symbol0 retry retry_wait rs =
     (let symbol = exchange_symbol symbol0
      in case book_loop retry retry_wait symbol rs of
           (evs, Awaiting) \<Rightarrow> (evs, Awaiting)
         | (evs, Raised e) \<Rightarrow> (evs, Raised e)
         | (evs, Returned None) \<Rightarrow> (evs, Raised UnboundLocalError)
         | (evs, Returned (Some data)) \<Rightarrow>
             (evs, Returned [symbol \<mapsto> \<lparr> BID = fill (bids data) sd, ASK = fill (asks data) sd \<rparr>]))"

text \<open>\<^verbatim>\<open>l2_book(self, symbol, retry=0, retry_wait=0)\<close>.\<close>

definition l2_book ::
  "(string \<Rightarrow> string) \<Rightarrow> string \<Rightarrow> int option \<Rightarrow> rat \<Rightarrow> book_response list
     \<Rightarrow> (unit, string \<rightharpoonup> sides) run" where
  "l2_book exchange_symbol symbol retry retry_wait rs =
     book exchange_symbol symbol retry retry_wait rs"

section \<open>Reading a response and a run\<close>

text \<open>
  The number of seconds a response's \<^verbatim>\<open>Retry-After\<close> header gives: the header is there
  and \<^verbatim>\<open>int\<close> reads it as a number that \<^verbatim>\<open>sleep\<close> accepts.
\<close>

definition retry_after_seconds :: "'b response \<Rightarrow> nat option" where
  "retry_after_seconds r =
     (case retry_after r of
        None \<Rightarrow> None
      | Some s \<Rightarrow> (case int_of_string s of
                    Inl e \<Rightarrow> None
                  | Inr n \<Rightarrow> if n < 0 then None else Some (nat n)))"

text \<open>A 429 response whose header gives \<open>n\<close> seconds.\<close>

definition rate_limited :: "'b response \<Rightarrow> nat \<Rightarrow> bool" where
  "rate_limited r n \<longleftrightarrow> status_code r = 429 \<and> retry_after_seconds r = Some n"

text \<open>
  A response that either loop answers by sleeping and asking again: a 429 whose header
  gives a number of seconds, or a 500 when \<^verbatim>\<open>retry_wait\<close> is a length \<^verbatim>\<open>sleep\<close> accepts.
\<close>

definition retriable :: "rat \<Rightarrow> 'b response \<Rightarrow> bool" where
  "retriable retry_wait r \<longleftrightarrow>
     (status_code r = 429 \<and> retry_after_seconds r \<noteq> None) \<or> (status_code r = 500 \<and> 0 \<le> retry_wait)"

text \<open>The same request sent once for each of a list of waits, each followed by its sleep.\<close>

fun retries :: "query \<Rightarrow> nat list \<Rightarrow> 't event list" where
  "retries q [] = []"
| "retries q (n # ns) = Request q # Sleep (of_nat n) # retries q ns"

text \<open>The requests of a run and the pages it yields, in order.\<close>

fun requests :: "'t event list \<Rightarrow> query list" where
  "requests [] = []"
| "requests (Request q # evs) = q # requests evs"
| "requests (ev # evs) = requests evs"

fun pages :: "'t event list \<Rightarrow> 't trade list list" where
  "pages [] = []"
| "pages (Yield page # evs) = page # pages evs"
| "pages (ev # evs) = pages evs"

text \<open>The entry of a returned snapshot under a symbol; nothing when nothing is returned.\<close>

definition snapshot :: "('t, string \<rightharpoonup> sides) run \<Rightarrow> string \<Rightarrow> sides option" where
  "snapshot run symbol = (case snd run of Returned ret \<Rightarrow> ret symbol | Raised e \<Rightarrow> None | Awaiting \<Rightarrow> None)"

section \<open>Concrete inputs\<close>

text \<open>
  Inputs on which the theorems below are run: two trades of the instrument
  \<^verbatim>\<open>BTC-PERPETUAL\<close>, the second at the cursor of the saturated page below, and the
  responses a server can give.
\<close>

definition sample_trade :: raw_trade where
  "sample_trade = \<lparr> timestamp = 1600000000000, instrument_name = ''BTC-PERPETUAL'',
     trade_id = JStr ''48079254'', direction = ''buy'', amount = 10, price = 9000 \<rparr>"

definition later_trade :: raw_trade where
  "later_trade = \<lparr> timestamp = 1600000000500, instrument_name = ''BTC-PERPETUAL'',
     trade_id = JInt 48079255, direction = ''sell'', amount = 20, price = 9001 \<rparr>"

text \<open>A page of exactly \<^verbatim>\<open>REQUEST_LIMIT\<close> trades.\<close>

definition full_page :: "raw_trade list" where
  "full_page = replicate 1000 sample_trade"

text \<open>One trade short of a full page.\<close>

definition short_page :: "raw_trade list" where
  "short_page = replicate 999 sample_trade"


definition page_200 :: "raw_trade list \<Rightarrow> trades_response" where
  "page_200 data = \<lparr> status_code = 200, retry_after = None, body = data \<rparr>"

definition trades_500 :: trades_response where
  "trades_500 = \<lparr> status_code = 500, retry_after = None, body = [] \<rparr>"

definition trades_429 :: trades_response where
  "trades_429 = \<lparr> status_code = 429, retry_after = Some ''120'', body = [] \<rparr>"

text \<open>A 429 without the header, and one whose header is a date.\<close>

definition bare_429 :: trades_response where
  "bare_429 = \<lparr> status_code = 429, retry_after = None, body = [] \<rparr>"

definition dated_429 :: trades_response where
  "dated_429 = \<lparr> status_code = 429,
     retry_after = Some ''Wed, 21 Oct 2015 07:28:00 GMT'', body = [] \<rparr>"

definition no_book :: book_body where
  "no_book = \<lparr> bids = [], asks = [] \<rparr>"

definition book_500 :: book_response where
  "book_500 = \<lparr> status_code = 500, retry_after = None, body = no_book \<rparr>"

definition book_429 :: book_response where
  "book_429 = \<lparr> status_code = 429, retry_after = Some ''3'', body = no_book \<rparr>"

definition book_bare_429 :: book_response where
  "book_bare_429 = \<lparr> status_code = 429, retry_after = None, body = no_book \<rparr>"

definition book_200 :: book_response where
  "book_200 = \<lparr> status_code = 200, retry_after = None,
     body = \<lparr> bids = [(9000, 1), (8998, 2), (9000, 5), (8999, 2)], asks = [(9002, 1), (9001, 4)] \<rparr> \<rparr>"

text \<open>The timestamp collaborator of the runs below: milliseconds to seconds.\<close>

definition seconds :: "int \<Rightarrow> rat" where
  "seconds ms = of_int ms / 1000"

section \<open>The normalizer\<close>

lemmas int_of_string_defs = int_of_string_def strip_def is_space_def unsigned_def digit_val_def

lemma sample_trade_id: "py_int (trade_id sample_trade) = Inr 48079254"
  by (simp add: sample_trade_def int_of_string_defs)

lemma later_trade_id: "py_int (trade_id later_trade) = Inr 48079255"
  by (simp add: later_trade_def)

text \<open>What \<^verbatim>\<open>int\<close> reads and what it refuses.\<close>

lemma int_of_string_samples:
  "int_of_string ''0'' = Inr 0"
  "int_of_string ''  42 '' = Inr 42"
  "int_of_string ''+7'' = Inr 7"
  "int_of_string ''-7'' = Inr (- 7)"
  "int_of_string ''1_000'' = Inr 1000"
  "int_of_string ''1__0'' = Inl ValueError"
  "int_of_string ''_1'' = Inl ValueError"
  "int_of_string ''1_'' = Inl ValueError"
  "int_of_string ''1 0'' = Inl ValueError"
  "int_of_string ''12a'' = Inl ValueError"
  "int_of_string ''-'' = Inl ValueError"
  "int_of_string [] = Inl ValueError"
  "int_of_string ''   '' = Inl ValueError"
  "int_of_string ''1.5'' = Inl ValueError"
  by (simp_all add: int_of_string_defs)





section \<open>One iteration of each loop\<close>

lemma prepend_Nil [simp]: "prepend [] run = run"
  by (simp add: prepend_def)

lemma prepend_prepend [simp]: "prepend xs (prepend ys run) = prepend (xs @ ys) run"
  by (simp add: prepend_def)

lemma prepend_pair [simp]: "prepend xs (ys, out) = (xs @ ys, out)"
  by (simp add: prepend_def)

lemma sleep_nonneg: "0 \<le> secs \<Longrightarrow> sleep secs = Inr (Sleep secs)"
  by (simp add: sleep_def)

lemma sleep_retry_after_seconds:
  "retry_after_seconds r = Some n \<Longrightarrow> sleep_retry_after r = Inr (Sleep (of_nat n))"
  by (auto simp add: retry_after_seconds_def sleep_retry_after_def sleep_def
           split: option.splits sum.splits if_splits)

lemma trades_loop_429:
  assumes "rate_limited r n"
  shows "trades_loop tn instrument retry retry_wait start end (r # rs) =
           prepend [Request (helper instrument start end), Sleep (of_nat n)]
             (trades_loop tn instrument retry retry_wait start end rs)"
  using assms by (simp add: rate_limited_def sleep_retry_after_seconds)

lemma trades_loop_500:
  assumes "status_code r = 500" and "0 \<le> retry_wait"
  shows "trades_loop tn instrument retry retry_wait start end (r # rs) =
           prepend [Request (helper instrument start end), Warning Status500, Sleep retry_wait]
             (trades_loop tn instrument retry retry_wait start end rs)"
  using assms by (simp add: sleep_nonneg)

lemma trades_loop_200:
  assumes "status_code r = 200" and "normalize_page tn (body r) = Inr page"
  shows "trades_loop tn instrument retry retry_wait start end (r # rs) =
           (if length (body r) < REQUEST_LIMIT \<or> \<not> truthy (snd (advance start end (body r)))
                \<or> \<not> truthy end
            then ([Request (helper instrument start end), Sleep RATE_LIMIT_SLEEP]
                    @ map Warning (fst (advance start end (body r))) @ [Yield page], Returned ())
            else prepend ([Request (helper instrument start end), Sleep RATE_LIMIT_SLEEP]
                    @ map Warning (fst (advance start end (body r))) @ [Yield page])
                   (trades_loop tn instrument retry retry_wait (snd (advance start end (body r))) end rs))"
  using assms by (simp add: Let_def split: prod.splits)

lemma trades_loop_starts:
  "\<exists>rest. fst (trades_loop tn instrument retry retry_wait start end rs)
            = Request (helper instrument start end) # rest"
  by (cases rs) (auto simp add: Let_def prepend_def split: sum.splits prod.splits)

lemma book_loop_429:
  assumes "rate_limited r n"
  shows "book_loop retry retry_wait symbol (r # rs) =
           prepend [Request (OrderBook symbol), Sleep (of_nat n)]
             (book_loop retry retry_wait symbol rs)"
  using assms by (simp add: rate_limited_def sleep_retry_after_seconds)

lemma book_prepend:
  "book_loop retry retry_wait (exchange_symbol symbol) rs
     = prepend evs (book_loop retry retry_wait (exchange_symbol symbol) rs')
   \<Longrightarrow> book exchange_symbol symbol retry retry_wait rs
     = prepend evs (book exchange_symbol symbol retry retry_wait rs')"
  by (cases "book_loop retry retry_wait (exchange_symbol symbol) rs'")
     (auto simp add: book_def prepend_def Let_def split: outcome.splits option.splits)

section \<open>Rate limiting\<close>

lemma trades_loop_retries:
  "list_all2 rate_limited pre ns \<Longrightarrow>
   trades_loop tn instrument retry retry_wait start end (pre @ rs) =
     prepend (retries (helper instrument start end) ns)
       (trades_loop tn instrument retry retry_wait start end rs)"
proof (induction pre ns rule: list_all2_induct)
  case Nil
  show ?case by simp
next
  case (Cons r n pre ns)
  then show ?case by (simp only: append_Cons trades_loop_429 [OF Cons.hyps(1)]) simp
qed

lemma book_loop_retries:
  "list_all2 rate_limited pre ns \<Longrightarrow>
   book_loop retry retry_wait symbol (pre @ rs) =
     prepend (retries (OrderBook symbol) ns) (book_loop retry retry_wait symbol rs)"
proof (induction pre ns rule: list_all2_induct)
  case Nil
  show ?case by simp
next
  case (Cons r n pre ns)
  then show ?case by (simp only: append_Cons book_loop_429 [OF Cons.hyps(1)]) simp
qed

text \<open>
  The header is read without a guard, at line 56 and at line 115. A 429 whose header
  gives no number of seconds raises: \<^verbatim>\<open>KeyError\<close> when the header is missing,
  \<^verbatim>\<open>ValueError\<close> when \<^verbatim>\<open>int\<close> or \<^verbatim>\<open>sleep\<close> refuses its value.
\<close>

lemma int_of_string_error: "int_of_string s = Inl e \<Longrightarrow> e = ValueError"
  unfolding int_of_string_def
  by (cases "strip s") (simp_all split: if_splits option.splits)

lemma sleep_retry_after_raises:
  assumes "retry_after_seconds r = None"
  shows "\<exists>e. (sleep_retry_after r :: error + 't event) = Inl e
           \<and> (e = KeyError \<or> e = ValueError) \<and> (retry_after r = None \<longrightarrow> e = KeyError)"
proof (cases "retry_after r")
  case None
  then show ?thesis by (simp add: sleep_retry_after_def)
next
  case (Some s)
  show ?thesis
  proof (cases "int_of_string s")
    case (Inl e)
    then have "e = ValueError" by (rule int_of_string_error)
    with Some Inl show ?thesis by (simp add: sleep_retry_after_def)
  next
    case (Inr n)
    with Some assms have "n < 0"
      by (simp add: retry_after_seconds_def split: if_splits)
    with Some Inr show ?thesis by (simp add: sleep_retry_after_def sleep_def)
  qed
qed

lemma trades_loop_429_error:
  fixes tn :: "int \<Rightarrow> 't"
  assumes "status_code r = 429" and "(sleep_retry_after r :: error + 't event) = Inl e"
  shows "trades_loop tn instrument retry retry_wait start end (r # rs) =
           ([Request (helper instrument start end)], Raised e)"
  using assms by simp

lemma book_429_error:
  assumes "status_code r = 429" and "(sleep_retry_after r :: error + unit event) = Inl e"
  shows "book exchange_symbol symbol retry retry_wait (r # rs) =
           ([Request (OrderBook (exchange_symbol symbol))], Raised e)"
  using assms by (simp add: book_def)

lemma trades_loop_429_raises:
  fixes tn :: "int \<Rightarrow> 't"
  assumes "status_code r = 429" and "retry_after_seconds r = None"
  shows "\<exists>e. (e = KeyError \<or> e = ValueError) \<and> (retry_after r = None \<longrightarrow> e = KeyError)
           \<and> trades_loop tn instrument retry retry_wait start end (r # rs) =
               ([Request (helper instrument start end)], Raised e)"
proof -
  from sleep_retry_after_raises [OF assms(2), where ?'t = 't] obtain e where e:
    "(sleep_retry_after r :: error + 't event) = Inl e
       \<and> (e = KeyError \<or> e = ValueError) \<and> (retry_after r = None \<longrightarrow> e = KeyError)" ..
  show ?thesis
  proof (intro exI [of _ e] conjI)
    show "e = KeyError \<or> e = ValueError"
      by (rule e [THEN conjunct2, THEN conjunct1])
    show "retry_after r = None \<longrightarrow> e = KeyError"
      by (rule e [THEN conjunct2, THEN conjunct2])
    show "trades_loop tn instrument retry retry_wait start end (r # rs) =
            ([Request (helper instrument start end)], Raised e)"
      by (rule trades_loop_429_error [OF assms(1) e [THEN conjunct1]])
  qed
qed

lemma book_429_raises:
  assumes "status_code r = 429" and "retry_after_seconds r = None"
  shows "\<exists>e. (e = KeyError \<or> e = ValueError) \<and> (retry_after r = None \<longrightarrow> e = KeyError)
           \<and> book exchange_symbol symbol retry retry_wait (r # rs) =
               ([Request (OrderBook (exchange_symbol symbol))], Raised e)"
proof -
  from sleep_retry_after_raises [OF assms(2), where ?'t = unit] obtain e where e:
    "(sleep_retry_after r :: error + unit event) = Inl e
       \<and> (e = KeyError \<or> e = ValueError) \<and> (retry_after r = None \<longrightarrow> e = KeyError)" ..
  show ?thesis
  proof (intro exI [of _ e] conjI)
    show "e = KeyError \<or> e = ValueError"
      by (rule e [THEN conjunct2, THEN conjunct1])
    show "retry_after r = None \<longrightarrow> e = KeyError"
      by (rule e [THEN conjunct2, THEN conjunct2])
    show "book exchange_symbol symbol retry retry_wait (r # rs) =
            ([Request (OrderBook (exchange_symbol symbol))], Raised e)"
      by (rule book_429_error [OF assms(1) e [THEN conjunct1]])
  qed
qed

text \<open>
  Claim C5 as stated does not hold for every 429. A 429 without a \<^verbatim>\<open>Retry-After\<close> header
  ends the trade run and the order-book fetch with \<^verbatim>\<open>KeyError\<close>, and one whose header
  is a date ends the run with \<^verbatim>\<open>ValueError\<close>: the request is not sent again, although
  a 200 response would follow.
\<close>

theorem rate_limited_counterexample:
  "trades_loop seconds ''BTC-PERPETUAL'' (Some 5) 10 None None [bare_429, page_200 [sample_trade]]
     = ([Request (Last ''BTC-PERPETUAL'')], Raised KeyError)
   \<and> trades_loop seconds ''BTC-PERPETUAL'' (Some 5) 10 None None [dated_429, page_200 [sample_trade]]
     = ([Request (Last ''BTC-PERPETUAL'')], Raised ValueError)
   \<and> book id ''BTC-PERPETUAL'' (Some 5) 0 [book_bare_429, book_200]
     = ([Request (OrderBook ''BTC-PERPETUAL'')], Raised KeyError)"
  by (simp add: bare_429_def dated_429_def book_bare_429_def book_def sleep_retry_after_def
        int_of_string_defs)

text \<open>
  Claim C5, amended. In the trade loop and in the order-book fetch alike, a 429 response
  whose \<^verbatim>\<open>Retry-After\<close> header holds a non-negative integer \<open>n\<close> is answered by a sleep
  of exactly \<open>n\<close> seconds and the same request again, whatever \<^verbatim>\<open>retry\<close> and
  \<^verbatim>\<open>retry_wait\<close> are: a run over any number of such responses followed by the responses
  \<open>rs\<close> is those request and sleep pairs followed by the run over \<open>rs\<close>, with the
  outcome of that run, so no such 429 ends a run or raises. A 429 whose header is missing
  or holds no such integer is not retried: the call ends with \<^verbatim>\<open>KeyError\<close> (no header)
  or \<^verbatim>\<open>ValueError\<close>.
\<close>

theorem rate_limited_retried:
  assumes "list_all2 rate_limited pre ns" and "list_all2 rate_limited pre' ns'"
  shows "trades_loop tn instrument retry retry_wait start end (pre @ rs) =
           prepend (retries (helper instrument start end) ns)
             (trades_loop tn instrument retry retry_wait start end rs)
       \<and> book exchange_symbol symbol retry' retry_wait' (pre' @ rs') =
           prepend (retries (OrderBook (exchange_symbol symbol)) ns')
             (book exchange_symbol symbol retry' retry_wait' rs')
       \<and> (status_code r = 429 \<and> retry_after_seconds r = None \<longrightarrow>
            (\<exists>e. (e = KeyError \<or> e = ValueError) \<and> (retry_after r = None \<longrightarrow> e = KeyError)
               \<and> trades_loop tn instrument retry retry_wait start end (r # rs) =
                   ([Request (helper instrument start end)], Raised e)))
       \<and> (status_code r' = 429 \<and> retry_after_seconds r' = None \<longrightarrow>
            (\<exists>e. (e = KeyError \<or> e = ValueError) \<and> (retry_after r' = None \<longrightarrow> e = KeyError)
               \<and> book exchange_symbol symbol retry' retry_wait' (r' # rs') =
                   ([Request (OrderBook (exchange_symbol symbol))], Raised e)))"
proof (intro conjI impI)
  show "trades_loop tn instrument retry retry_wait start end (pre @ rs) =
          prepend (retries (helper instrument start end) ns)
            (trades_loop tn instrument retry retry_wait start end rs)"
    by (rule trades_loop_retries [OF assms(1)])
  show "book exchange_symbol symbol retry' retry_wait' (pre' @ rs') =
          prepend (retries (OrderBook (exchange_symbol symbol)) ns')
            (book exchange_symbol symbol retry' retry_wait' rs')"
    by (rule book_prepend) (rule book_loop_retries [OF assms(2)])
  show "\<exists>e. (e = KeyError \<or> e = ValueError) \<and> (retry_after r = None \<longrightarrow> e = KeyError)
          \<and> trades_loop tn instrument retry retry_wait start end (r # rs) =
              ([Request (helper instrument start end)], Raised e)"
    if "status_code r = 429 \<and> retry_after_seconds r = None"
    using that by (intro trades_loop_429_raises) simp_all
  show "\<exists>e. (e = KeyError \<or> e = ValueError) \<and> (retry_after r' = None \<longrightarrow> e = KeyError)
          \<and> book exchange_symbol symbol retry' retry_wait' (r' # rs') =
              ([Request (OrderBook (exchange_symbol symbol))], Raised e)"
    if "status_code r' = 429 \<and> retry_after_seconds r' = None"
    using that by (intro book_429_raises) simp_all
qed

lemma trades_429_limited: "rate_limited trades_429 120"
  by (simp add: rate_limited_def retry_after_seconds_def trades_429_def int_of_string_defs)

lemma book_429_limited: "rate_limited book_429 3"
  by (simp add: rate_limited_def retry_after_seconds_def book_429_def int_of_string_defs)

lemma bare_429_unreadable:
  "status_code bare_429 = 429 \<and> retry_after_seconds bare_429 = None"
  "status_code book_bare_429 = 429 \<and> retry_after_seconds book_bare_429 = None"
  by (simp_all add: bare_429_def book_bare_429_def retry_after_seconds_def)

theorem rate_limited_retried_witness:
  "trades_loop seconds ''BTC-PERPETUAL'' (Some 0) 10 None None [trades_429, trades_429] =
     ([Request (Last ''BTC-PERPETUAL''), Sleep 120, Request (Last ''BTC-PERPETUAL''), Sleep 120,
       Request (Last ''BTC-PERPETUAL'')], Awaiting)
   \<and> fst (book id ''BTC-PERPETUAL'' (Some 0) 0 [book_429, book_200]) =
     [Request (OrderBook ''BTC-PERPETUAL''), Sleep 3, Request (OrderBook ''BTC-PERPETUAL'')]
   \<and> trades_loop seconds ''BTC-PERPETUAL'' (Some 0) 10 None None [bare_429]
     = ([Request (Last ''BTC-PERPETUAL'')], Raised KeyError)
   \<and> book id ''BTC-PERPETUAL'' (Some 0) 0 [book_bare_429, book_200]
     = ([Request (OrderBook ''BTC-PERPETUAL'')], Raised KeyError)"
proof -
  have a: "list_all2 rate_limited [trades_429, trades_429] [120, 120]"
    by (simp add: trades_429_limited)
  have b: "list_all2 rate_limited [book_429] [3]"
    by (simp add: book_429_limited)
  have c: "retry_after bare_429 = None" "retry_after book_bare_429 = None"
    by (simp_all add: bare_429_def book_bare_429_def)
  note inst = rate_limited_retried [OF a b, of seconds "''BTC-PERPETUAL''" "Some 0" 10 None None "[]"
        id "''BTC-PERPETUAL''" "Some 0" 0 "[book_200]" bare_429 book_bare_429]
  from inst bare_429_unreadable c
  have "trades_loop seconds ''BTC-PERPETUAL'' (Some 0) 10 None None [bare_429]
          = ([Request (Last ''BTC-PERPETUAL'')], Raised KeyError)"
       "book id ''BTC-PERPETUAL'' (Some 0) 0 [book_bare_429, book_200]
          = ([Request (OrderBook ''BTC-PERPETUAL'')], Raised KeyError)"
    by auto
  moreover from inst
  have "trades_loop seconds ''BTC-PERPETUAL'' (Some 0) 10 None None [trades_429, trades_429] =
     ([Request (Last ''BTC-PERPETUAL''), Sleep 120, Request (Last ''BTC-PERPETUAL''), Sleep 120,
       Request (Last ''BTC-PERPETUAL'')], Awaiting)"
       "fst (book id ''BTC-PERPETUAL'' (Some 0) 0 [book_429, book_200]) =
     [Request (OrderBook ''BTC-PERPETUAL''), Sleep 3, Request (OrderBook ''BTC-PERPETUAL'')]"
    by (simp_all add: book_def book_200_def Let_def)
  ultimately show ?thesis by blast
qed

text \<open>
  From here on a loop is unfolded only through the lemmas of one iteration, or by
  \<open>loop_simps\<close> on a concrete list of responses.
\<close>

declare trades_loop.simps(2) [simp del] book_loop.simps(2) [simp del]

lemmas loop_simps = trades_loop.simps(2) book_loop.simps(2)

section \<open>Server errors\<close>

lemma sample_normalized:
  "trade_normalization seconds sample_trade =
     Inr \<lparr> t_timestamp = 1600000000, t_symbol = ''BTC-PERPETUAL'', t_id = 48079254,
           t_feed = DERIBIT, t_side = BUY, t_amount = 10, t_price = 9000 \<rparr>"
  by (simp add: trade_normalization_def sample_trade_id) (simp add: sample_trade_def seconds_def)

lemma later_normalized:
  "trade_normalization seconds later_trade =
     Inr \<lparr> t_timestamp = 3200000001 / 2, t_symbol = ''BTC-PERPETUAL'', t_id = 48079255,
           t_feed = DERIBIT, t_side = SELL, t_amount = 20, t_price = 9001 \<rparr>"
  by (simp add: trade_normalization_def later_trade_id) (simp add: later_trade_def seconds_def)

text \<open>
  Claim C4 as stated does not hold of the trade loop. With \<^verbatim>\<open>retry=0\<close> and a server that
  answers 500 and then 200, the loop does not stop at the 500: it warns, sleeps
  \<^verbatim>\<open>retry_wait\<close>, sends the same request again and yields the page of the second
  answer.
\<close>

theorem trades_500_retried_counterexample:
  "trades_loop seconds ''BTC-PERPETUAL'' (Some 0) 10 None None
       [trades_500, page_200 [sample_trade]] =
     ([Request (Last ''BTC-PERPETUAL''), Warning Status500, Sleep 10,
       Request (Last ''BTC-PERPETUAL''), Sleep RATE_LIMIT_SLEEP,
       Yield [\<lparr> t_timestamp = 1600000000, t_symbol = ''BTC-PERPETUAL'', t_id = 48079254,
                t_feed = DERIBIT, t_side = BUY, t_amount = 10, t_price = 9000 \<rparr>]],
      Returned ())"
  by (simp add: loop_simps trades_500_def page_200_def sleep_def advance_def sample_normalized
        REQUEST_LIMIT_def)

text \<open>
  Claim C4, amended. In the trade loop a 500 response is never abandoned, whatever
  \<^verbatim>\<open>retry\<close> is (also 0 and \<^verbatim>\<open>None\<close>): the loop logs the warning, sleeps
  \<^verbatim>\<open>retry_wait\<close> seconds and goes on with the rest of the run from the same cursor, and
  that rest starts with the same request again. (Lines 58 to 61 read no retry count; only
  \<^verbatim>\<open>_book\<close> tests \<^verbatim>\<open>retry == 0\<close>.)
\<close>

theorem trades_500_retried:
  assumes "status_code r = 500" and "0 \<le> retry_wait"
  shows "trades_loop tn instrument retry retry_wait start end (r # rs) =
           prepend [Request (helper instrument start end), Warning Status500, Sleep retry_wait]
             (trades_loop tn instrument retry retry_wait start end rs)
       \<and> (\<exists>rest. fst (trades_loop tn instrument retry retry_wait start end rs)
                   = Request (helper instrument start end) # rest)"
proof
  show "trades_loop tn instrument retry retry_wait start end (r # rs) =
          prepend [Request (helper instrument start end), Warning Status500, Sleep retry_wait]
            (trades_loop tn instrument retry retry_wait start end rs)"
    by (rule trades_loop_500 [OF assms])
  show "\<exists>rest. fst (trades_loop tn instrument retry retry_wait start end rs)
                 = Request (helper instrument start end) # rest"
    by (rule trades_loop_starts)
qed

theorem trades_500_retried_witness:
  "status_code trades_500 = 500 \<and> (0::rat) \<le> 10
   \<and> trades_loop seconds ''BTC-PERPETUAL'' (Some 0) 10 None None [trades_500, trades_500] =
       ([Request (Last ''BTC-PERPETUAL''), Warning Status500, Sleep 10,
         Request (Last ''BTC-PERPETUAL''), Warning Status500, Sleep 10,
         Request (Last ''BTC-PERPETUAL'')], Awaiting)"
proof -
  have a: "status_code trades_500 = 500" by (simp add: trades_500_def)
  have b: "(0::rat) \<le> 10" by simp
  show ?thesis
    using trades_500_retried [OF a b, of seconds "''BTC-PERPETUAL''" "Some 0" None None "[trades_500]"]
    by (simp add: loop_simps trades_500_def sleep_def)
qed

text \<open>
  Claim C3 on the code. With \<^verbatim>\<open>retry == 0\<close> a 500 response makes \<^verbatim>\<open>_book\<close> leave its loop
  by the \<^verbatim>\<open>break\<close> of line 121, before any assignment to \<^verbatim>\<open>data\<close>; line 130 then reads
  \<^verbatim>\<open>data\<close> and the call raises \<^verbatim>\<open>UnboundLocalError\<close>. No snapshot is returned, empty or
  not.
\<close>

theorem book_500_no_retry:
  assumes "status_code r = 500" and "0 \<le> retry_wait"
  shows "book exchange_symbol symbol (Some 0) retry_wait (r # rs) =
           ([Request (OrderBook (exchange_symbol symbol)), Warning Status500, Sleep retry_wait],
            Raised UnboundLocalError)"
  using assms by (simp add: loop_simps book_def sleep_nonneg)

theorem book_500_no_retry_witness:
  "status_code book_500 = 500 \<and> (0::rat) \<le> 0
   \<and> l2_book id ''BTC-PERPETUAL'' (Some 0) 0 [book_500] =
       ([Request (OrderBook ''BTC-PERPETUAL''), Warning Status500, Sleep 0],
        Raised UnboundLocalError)
   \<and> snapshot (l2_book id ''BTC-PERPETUAL'' (Some 0) 0 [book_500]) ''BTC-PERPETUAL'' = None"
proof -
  have a: "status_code book_500 = 500" by (simp add: book_500_def)
  have b: "(0::rat) \<le> 0" by simp
  show ?thesis
    using book_500_no_retry [OF a b, of id "''BTC-PERPETUAL''" "[]"]
    by (simp add: l2_book_def a snapshot_def)
qed

section \<open>Successful requests\<close>

text \<open>
  Claim C8 as stated does not hold of the order-book fetch. Its run on a 200 response is
  the request alone: no sleep stands between the response and the snapshot built from
  its body.
\<close>

theorem book_200_no_sleep_counterexample:
  "fst (book id ''BTC-PERPETUAL'' (Some 0) 0 [book_200]) = [Request (OrderBook ''BTC-PERPETUAL'')]
   \<and> snapshot (book id ''BTC-PERPETUAL'' (Some 0) 0 [book_200]) ''BTC-PERPETUAL''
       = Some \<lparr> BID = [(8998, 2), (8999, 2), (9000, 5)], ASK = [(9001, 4), (9002, 1)] \<rparr>"
  by (simp add: loop_simps book_def book_200_def snapshot_def sd_def Let_def)

lemma book_loop_200:
  "status_code r = 200 \<Longrightarrow>
   book_loop retry retry_wait symbol (r # rs) = ([Request (OrderBook symbol)], Returned (Some (body r)))"
  by (simp add: loop_simps)

lemma book_at_200:
  "status_code r = 200 \<Longrightarrow>
   book exchange_symbol symbol retry retry_wait (r # rs) =
     ([Request (OrderBook (exchange_symbol symbol))],
      Returned [exchange_symbol symbol \<mapsto>
        \<lparr> BID = fill (bids (body r)) sd, ASK = fill (asks (body r)) sd \<rparr>])"
  by (simp add: book_def Let_def book_loop_200)

lemma trades_loop_200_prefix:
  assumes "status_code r = 200"
  shows "\<exists>rest. fst (trades_loop tn instrument retry retry_wait start end (r # rs)) =
           Request (helper instrument start end) # Sleep RATE_LIMIT_SLEEP
             # map Warning (fst (advance start end (body r))) @ rest"
  using assms by (auto simp add: loop_simps Let_def prepend_def split: sum.splits prod.splits)

text \<open>
  Claim C8, amended. In the trade loop every 200 response is followed by a sleep of
  the constant \<^verbatim>\<open>RATE_LIMIT_SLEEP\<close>, whatever \<^verbatim>\<open>retry\<close> and \<^verbatim>\<open>retry_wait\<close> are, before
  anything is done with the body (the warnings about the page, its normalization, the
  yield). The order-book fetch sleeps nothing after a 200: its run is the one request.
\<close>

theorem success_sleep:
  assumes "status_code r = 200" and "status_code r' = 200"
  shows "(\<exists>rest. fst (trades_loop tn instrument retry retry_wait start end (r # rs)) =
            Request (helper instrument start end) # Sleep RATE_LIMIT_SLEEP
              # map Warning (fst (advance start end (body r))) @ rest)
       \<and> fst (book exchange_symbol symbol retry' retry_wait' (r' # rs'))
            = [Request (OrderBook (exchange_symbol symbol))]"
proof -
  have "fst (book exchange_symbol symbol retry' retry_wait' (r' # rs'))
          = [Request (OrderBook (exchange_symbol symbol))]"
    by (simp add: book_at_200 [OF assms(2)])
  with trades_loop_200_prefix [OF assms(1)] show ?thesis by blast
qed

theorem success_sleep_witness:
  "status_code (page_200 [sample_trade]) = 200 \<and> status_code book_200 = 200
   \<and> fst (trades_loop seconds ''BTC-PERPETUAL'' None 10 None None [page_200 [sample_trade]]) =
       [Request (Last ''BTC-PERPETUAL''), Sleep (1 / 5),
        Yield [\<lparr> t_timestamp = 1600000000, t_symbol = ''BTC-PERPETUAL'', t_id = 48079254,
                t_feed = DERIBIT, t_side = BUY, t_amount = 10, t_price = 9000 \<rparr>]]
   \<and> fst (book id ''BTC-PERPETUAL'' None 0 [book_200]) = [Request (OrderBook ''BTC-PERPETUAL'')]"
proof -
  have a: "status_code (page_200 [sample_trade]) = 200" by (simp add: page_200_def)
  have b: "status_code book_200 = 200" by (simp add: book_200_def)
  show ?thesis
    using success_sleep [OF a b, of seconds "''BTC-PERPETUAL''" None 10 None None "[]"
        id "''BTC-PERPETUAL''" None 0 "[]"]
    by (simp add: loop_simps page_200_def advance_def sample_normalized REQUEST_LIMIT_def
          RATE_LIMIT_SLEEP_def book_200_def book_def Let_def)
qed

section \<open>The cursor\<close>

lemma advance_empty: "advance start end [] = ([NoData start end], start)"
  by (simp add: advance_def)

lemma advance_saturated:
  "data \<noteq> [] \<Longrightarrow> timestamp (last data) = s \<Longrightarrow>
   advance (Some s) end data = ([Saturated (Some s)], Some (s + 1))"
  by (simp add: advance_def)

lemma advance_moved:
  "data \<noteq> [] \<Longrightarrow> Some (timestamp (last data)) \<noteq> start \<Longrightarrow>
   advance start end data = ([], Some (timestamp (last data)))"
  by (simp add: advance_def)

lemma normalize_replicate:
  "trade_normalization tn x = Inr t \<Longrightarrow> normalize_page tn (replicate n x) = Inr (replicate n t)"
  by (induction n) simp_all

lemma full_page_normalized:
  "normalize_page seconds full_page =
     Inr (replicate 1000 \<lparr> t_timestamp = 1600000000, t_symbol = ''BTC-PERPETUAL'', t_id = 48079254,
           t_feed = DERIBIT, t_side = BUY, t_amount = 10, t_price = 9000 \<rparr>)"
  unfolding full_page_def by (rule normalize_replicate [OF sample_normalized])

lemma full_page_facts:
  "length full_page = 1000" "full_page \<noteq> []" "last full_page = sample_trade"
  by (simp_all add: full_page_def)

lemma full_page_200:
  "status_code (page_200 full_page) = 200"
  "body (page_200 full_page) = full_page"
  "normalize_page seconds (body (page_200 full_page)) =
     Inr (replicate 1000 \<lparr> t_timestamp = 1600000000, t_symbol = ''BTC-PERPETUAL'', t_id = 48079254,
           t_feed = DERIBIT, t_side = BUY, t_amount = 10, t_price = 9000 \<rparr>)"
  by (simp_all add: page_200_def full_page_normalized)

lemma sample_timestamp: "timestamp sample_trade = 1600000000000"
  by (simp add: sample_trade_def)

lemma samples_retriable: "retriable 10 trades_429" "retriable 10 trades_500"
  using trades_429_limited
  by (simp_all add: retriable_def rate_limited_def trades_500_def)

text \<open>
  Claim C1. For a 200 response with the raw page \<open>data\<close>, processed with a bounded
  window (cursor \<open>s\<close>, end \<open>e\<close>): an empty page leaves the cursor at \<open>s\<close> (with the
  warning that the range has no data); a non-empty page whose last raw trade is not at
  \<open>s\<close> sets the cursor to exactly that trade's timestamp, with no warning; a non-empty
  page whose last raw trade is at \<open>s\<close> emits the saturation warning and sets the cursor
  to exactly \<open>s + 1\<close>. The loop then yields the page and, where it goes on, goes on from
  that cursor.
\<close>

theorem cursor_after_page:
  fixes s e :: int
  assumes ok: "status_code r = 200" and norm: "normalize_page tn (body r) = Inr page"
  defines "data \<equiv> body r"
  defines "start' \<equiv> snd (advance (Some s) (Some e) data)"
  defines "warnings \<equiv> fst (advance (Some s) (Some e) data)"
  shows "(data = [] \<longrightarrow> start' = Some s \<and> warnings = [NoData (Some s) (Some e)])
       \<and> (data \<noteq> [] \<and> timestamp (last data) \<noteq> s \<longrightarrow>
            start' = Some (timestamp (last data)) \<and> warnings = [])
       \<and> (data \<noteq> [] \<and> timestamp (last data) = s \<longrightarrow>
            start' = Some (s + 1) \<and> warnings = [Saturated (Some s)])
       \<and> trades_loop tn instrument retry retry_wait (Some s) (Some e) (r # rs) =
           (if length data < REQUEST_LIMIT \<or> \<not> truthy start' \<or> \<not> truthy (Some e)
            then ([Request (helper instrument (Some s) (Some e)), Sleep RATE_LIMIT_SLEEP]
                    @ map Warning warnings @ [Yield page], Returned ())
            else prepend ([Request (helper instrument (Some s) (Some e)), Sleep RATE_LIMIT_SLEEP]
                    @ map Warning warnings @ [Yield page])
                   (trades_loop tn instrument retry retry_wait start' (Some e) rs))"
proof (intro conjI)
  show "data = [] \<longrightarrow> start' = Some s \<and> warnings = [NoData (Some s) (Some e)]"
    by (simp add: start'_def warnings_def advance_empty)
  show "data \<noteq> [] \<and> timestamp (last data) \<noteq> s \<longrightarrow>
          start' = Some (timestamp (last data)) \<and> warnings = []"
    by (simp add: start'_def warnings_def advance_moved)
  show "data \<noteq> [] \<and> timestamp (last data) = s \<longrightarrow>
          start' = Some (s + 1) \<and> warnings = [Saturated (Some s)]"
    by (auto simp add: start'_def warnings_def advance_saturated)
  show "trades_loop tn instrument retry retry_wait (Some s) (Some e) (r # rs) =
           (if length data < REQUEST_LIMIT \<or> \<not> truthy start' \<or> \<not> truthy (Some e)
            then ([Request (helper instrument (Some s) (Some e)), Sleep RATE_LIMIT_SLEEP]
                    @ map Warning warnings @ [Yield page], Returned ())
            else prepend ([Request (helper instrument (Some s) (Some e)), Sleep RATE_LIMIT_SLEEP]
                    @ map Warning warnings @ [Yield page])
                   (trades_loop tn instrument retry retry_wait start' (Some e) rs))"
    unfolding data_def start'_def warnings_def by (rule trades_loop_200 [OF ok norm])
qed

theorem cursor_after_page_witness:
  "status_code (page_200 full_page) = 200
   \<and> snd (advance (Some 1600000000000) (Some 1700000000000) full_page) = Some 1600000000001
   \<and> fst (advance (Some 1600000000000) (Some 1700000000000) full_page) = [Saturated (Some 1600000000000)]
   \<and> requests (fst (trades_loop seconds ''BTC-PERPETUAL'' None 10 (Some 1600000000000) (Some 1700000000000)
        [page_200 full_page])) =
       [Between 1600000000000 1700000000000 ''BTC-PERPETUAL'',
        Between 1600000000001 1700000000000 ''BTC-PERPETUAL'']"
proof -
  have a: "status_code (page_200 full_page) = 200" by (simp add: page_200_def)
  have b: "normalize_page seconds (body (page_200 full_page)) =
     Inr (replicate 1000 \<lparr> t_timestamp = 1600000000, t_symbol = ''BTC-PERPETUAL'', t_id = 48079254,
           t_feed = DERIBIT, t_side = BUY, t_amount = 10, t_price = 9000 \<rparr>)"
    by (simp add: page_200_def full_page_normalized)
  have c: "body (page_200 full_page) = full_page" by (simp add: page_200_def)
  have d: "timestamp sample_trade = 1600000000000" by (simp add: sample_trade_def)
  show ?thesis
    using cursor_after_page [OF a b, of 1600000000000 1700000000000 "''BTC-PERPETUAL''" None 10 "[]"]
    by (simp add: a c d full_page_facts REQUEST_LIMIT_def)
qed

section \<open>When the pagination stops\<close>

lemma pages_append: "pages (xs @ ys) = pages xs @ pages ys"
  by (induction xs rule: pages.induct) simp_all

lemma pages_warnings: "pages (map Warning ws) = []"
  by (induction ws) simp_all

lemma requests_append: "requests (xs @ ys) = requests xs @ requests ys"
  by (induction xs rule: requests.induct) simp_all

lemma requests_warnings: "requests (map Warning ws) = []"
  by (induction ws) simp_all

lemma retriable_step:
  assumes "retriable retry_wait q"
  shows "\<exists>evs. pages evs = []
           \<and> trades_loop tn instrument retry retry_wait start end (q # rs) =
               prepend evs (trades_loop tn instrument retry retry_wait start end rs)"
proof (cases "status_code q = 429")
  case True
  with assms obtain n where "rate_limited q n"
    by (auto simp add: retriable_def rate_limited_def)
  from trades_loop_429 [OF this] show ?thesis
    by (intro exI [of _ "[Request (helper instrument start end), Sleep (of_nat n)]"]) simp
next
  case False
  with assms have "status_code q = 500" "0 \<le> retry_wait"
    by (auto simp add: retriable_def)
  from trades_loop_500 [OF this] show ?thesis
    by (intro exI [of _ "[Request (helper instrument start end), Warning Status500, Sleep retry_wait]"]) simp
qed

lemma retriable_prefix:
  assumes "\<forall>q\<in>set pre. retriable retry_wait q"
  shows "\<exists>evs. pages evs = []
           \<and> trades_loop tn instrument retry retry_wait start end (pre @ rs) =
               prepend evs (trades_loop tn instrument retry retry_wait start end rs)"
  using assms
proof (induction pre)
  case Nil
  show ?case by (intro exI [of _ "[]"]) simp
next
  case (Cons q pre)
  then obtain evs where evs: "pages evs = []"
    "trades_loop tn instrument retry retry_wait start end (pre @ rs) =
       prepend evs (trades_loop tn instrument retry retry_wait start end rs)"
    by auto
  from Cons.prems have "retriable retry_wait q" by simp
  from retriable_step [OF this] obtain evs0 where evs0: "pages evs0 = []"
    "trades_loop tn instrument retry retry_wait start end (q # pre @ rs) =
       prepend evs0 (trades_loop tn instrument retry retry_wait start end (pre @ rs))"
    by blast
  show ?case
    by (intro exI [of _ "evs0 @ evs"]) (simp add: evs evs0 pages_append)
qed

lemma no_bound_stops:
  assumes "status_code r = 200" and "normalize_page tn (body r) = Inr page"
  shows "trades_loop tn instrument retry retry_wait start None (r # rs) =
           ([Request (helper instrument start None), Sleep RATE_LIMIT_SLEEP]
              @ map Warning (fst (advance start None (body r))) @ [Yield page], Returned ())"
  by (simp add: trades_loop_200 [OF assms])

text \<open>
  Without a start date \<^verbatim>\<open>_get_trades\<close> ignores the end date too: both bounds stay
  \<^verbatim>\<open>None\<close>, and the call returns after the first page.
\<close>

lemma get_trades_no_start:
  assumes "status_code r = 200" and "normalize_page tn (body r) = Inr page"
  shows "get_trades ts now ms tn instrument None end_date retry retry_wait (r # rs) =
           ([Request (Last instrument), Sleep RATE_LIMIT_SLEEP]
              @ map Warning (fst (advance None None (body r))) @ [Yield page], Returned ())"
  using no_bound_stops [OF assms, of instrument retry retry_wait None rs]
  by (simp add: get_trades_def window_def)

lemma short_page_200:
  "status_code (page_200 short_page) = 200"
  "body (page_200 short_page) = short_page"
  "length short_page = 999" "short_page \<noteq> []" "last short_page = sample_trade"
  "normalize_page seconds (body (page_200 short_page)) =
     Inr (replicate 999 \<lparr> t_timestamp = 1600000000, t_symbol = ''BTC-PERPETUAL'', t_id = 48079254,
           t_feed = DERIBIT, t_side = BUY, t_amount = 10, t_price = 9000 \<rparr>)"
  by (simp_all add: page_200_def short_page_def normalize_replicate [OF sample_normalized])

text \<open>
  A window that ends at the epoch: both bounds are given, the end is 0. The first page is
  full, and the run returns after it.
\<close>

lemma end_at_epoch_run:
  "trades_loop seconds ''BTC-PERPETUAL'' None 10 (Some (- 86400000)) (Some 0)
       [page_200 full_page, page_200 [later_trade]] =
     ([Request (Last ''BTC-PERPETUAL''), Sleep RATE_LIMIT_SLEEP,
       Yield (replicate 1000 \<lparr> t_timestamp = 1600000000, t_symbol = ''BTC-PERPETUAL'',
                   t_id = 48079254, t_feed = DERIBIT, t_side = BUY, t_amount = 10, t_price = 9000 \<rparr>)],
      Returned ())"
proof -
  have adv: "advance (Some (- 86400000)) (Some 0) full_page = ([], Some 1600000000000)"
    by (simp add: advance_def full_page_facts sample_timestamp)
  show ?thesis
    by (simp add: trades_loop_200 [OF full_page_200(1) full_page_200(3)]
          full_page_200(2) adv full_page_facts REQUEST_LIMIT_def)
qed

text \<open>A window that starts at the epoch: the start bound is 0. The run goes on.\<close>

lemma start_at_epoch_requests:
  "requests (fst (trades_loop seconds ''BTC-PERPETUAL'' None 10 (Some 0) (Some 1700000000000)
       [page_200 full_page])) =
     [Last ''BTC-PERPETUAL'', Between 1600000000000 1700000000000 ''BTC-PERPETUAL'']"
proof -
  have adv: "advance (Some 0) (Some 1700000000000) full_page = ([], Some 1600000000000)"
    by (simp add: advance_def full_page_facts sample_timestamp)
  show ?thesis
    by (simp add: trades_loop_200 [OF full_page_200(1) full_page_200(3)]
          full_page_200(2) adv full_page_facts REQUEST_LIMIT_def)
qed

text \<open>
  Claim C2 as stated does not hold, whichever way "absent" is read. With both bounds
  given and the end bound 0, a run stops after a full page of 1000 trades, where the
  claim has it issue another query. With the start bound 0, which the source's test
  counts as absent, a run goes on after a full page, where the claim has it stop. What
  the source tests is the cursor after the page and the end bound, each for \<^verbatim>\<open>None\<close> or
  0.
\<close>

theorem pagination_stops_counterexample:
  "length (body (page_200 full_page)) = 1000
   \<and> requests (fst (trades_loop seconds ''BTC-PERPETUAL'' None 10 (Some (- 86400000)) (Some 0)
        [page_200 full_page, page_200 [later_trade]])) = [Last ''BTC-PERPETUAL'']
   \<and> snd (trades_loop seconds ''BTC-PERPETUAL'' None 10 (Some (- 86400000)) (Some 0)
        [page_200 full_page, page_200 [later_trade]]) = Returned ()
   \<and> requests (fst (trades_loop seconds ''BTC-PERPETUAL'' None 10 (Some 0) (Some 1700000000000)
        [page_200 full_page])) =
       [Last ''BTC-PERPETUAL'', Between 1600000000000 1700000000000 ''BTC-PERPETUAL'']"
  by (simp add: end_at_epoch_run start_at_epoch_requests full_page_200(2) full_page_facts)

text \<open>
  Claim C2, amended. After a 200 response the loop yields the page, and it stops there if
  and only if the raw page has fewer than \<^verbatim>\<open>REQUEST_LIMIT\<close> (1000) trades, or the cursor
  as the page left it is \<^verbatim>\<open>None\<close> or 0, or the end bound is \<^verbatim>\<open>None\<close> or 0 (the source's
  \<^verbatim>\<open>not start\<close> and \<^verbatim>\<open>not end\<close>); otherwise it goes on and its next step is another
  request, sent from the new cursor. In particular the run without bounds (\<^verbatim>\<open>start\<close> and
  \<^verbatim>\<open>end\<close> both \<^verbatim>\<open>None\<close>) returns after exactly one page, whatever its size, also when
  retried 429 and 500 responses come before the 200.
\<close>

theorem pagination_stops_iff:
  fixes start :: "int option" and "end" :: "int option" and instrument :: string
  assumes ok: "status_code r = 200" and norm: "normalize_page tn (body r) = Inr page"
  defines "start' \<equiv> snd (advance start end (body r))"
  defines "evs \<equiv> [Request (helper instrument start end), Sleep RATE_LIMIT_SLEEP]
                    @ map Warning (fst (advance start end (body r))) @ [Yield page]"
  defines "stop \<equiv> length (body r) < REQUEST_LIMIT \<or> \<not> truthy start' \<or> \<not> truthy end"
  shows "(trades_loop tn instrument retry retry_wait start end (r # rs) = (evs, Returned ())
            \<longleftrightarrow> stop)
       \<and> (\<not> stop \<longrightarrow>
            trades_loop tn instrument retry retry_wait start end (r # rs) =
              prepend evs (trades_loop tn instrument retry retry_wait start' end rs)
            \<and> (\<exists>rest. fst (trades_loop tn instrument retry retry_wait start' end rs) =
                        Request (helper instrument start' end) # rest))
       \<and> (start' = None \<or> end = None \<longrightarrow> stop)
       \<and> pages evs = [page]
       \<and> ((\<forall>q\<in>set pre. retriable retry_wait q) \<longrightarrow>
            snd (trades_loop tn instrument retry retry_wait None None (pre @ r # rs)) = Returned ()
            \<and> pages (fst (trades_loop tn instrument retry retry_wait None None (pre @ r # rs)))
                = [page])"
proof (intro conjI impI)
  have step: "trades_loop tn instrument retry retry_wait start end (r # rs) =
      (if stop then (evs, Returned ())
       else prepend evs (trades_loop tn instrument retry retry_wait start' end rs))"
    unfolding stop_def evs_def start'_def by (rule trades_loop_200 [OF ok norm])
  obtain rest where rest: "fst (trades_loop tn instrument retry retry_wait start' end rs) =
      Request (helper instrument start' end) # rest"
    using trades_loop_starts by blast
  show "trades_loop tn instrument retry retry_wait start end (r # rs) = (evs, Returned ())
          \<longleftrightarrow> stop"
  proof
    assume eq: "trades_loop tn instrument retry retry_wait start end (r # rs) = (evs, Returned ())"
    show stop
    proof (rule ccontr)
      assume "\<not> stop"
      with step eq have "prepend evs (trades_loop tn instrument retry retry_wait start' end rs)
          = (evs, Returned ())" by simp
      then have "evs @ fst (trades_loop tn instrument retry retry_wait start' end rs) = evs"
        by (simp add: prepend_def)
      with rest show False by simp
    qed
  next
    assume stop
    with step show "trades_loop tn instrument retry retry_wait start end (r # rs) = (evs, Returned ())"
      by simp
  qed
  show "trades_loop tn instrument retry retry_wait start end (r # rs) =
          prepend evs (trades_loop tn instrument retry retry_wait start' end rs)" if "\<not> stop"
    using that step by simp
  show "\<exists>rest. fst (trades_loop tn instrument retry retry_wait start' end rs) =
          Request (helper instrument start' end) # rest"
    by (rule trades_loop_starts)
  show stop if "start' = None \<or> end = None"
    using that by (auto simp add: stop_def)
  show "pages evs = [page]"
    by (simp add: evs_def pages_append pages_warnings)
  assume pre: "\<forall>q\<in>set pre. retriable retry_wait q"
  from retriable_prefix [OF pre] obtain evs0 where evs0: "pages evs0 = []"
    "trades_loop tn instrument retry retry_wait None None (pre @ r # rs) =
       prepend evs0 (trades_loop tn instrument retry retry_wait None None (r # rs))"
    by blast
  show "snd (trades_loop tn instrument retry retry_wait None None (pre @ r # rs)) = Returned ()"
    by (simp add: evs0 no_bound_stops [OF ok norm] prepend_def)
  show "pages (fst (trades_loop tn instrument retry retry_wait None None (pre @ r # rs))) = [page]"
    by (simp add: evs0 no_bound_stops [OF ok norm] pages_append pages_warnings)
qed


theorem pagination_stops_iff_witness:
  "status_code (page_200 full_page) = 200
   \<and> requests (fst (trades_loop seconds ''BTC-PERPETUAL'' None 10
        (Some 1500000000000) (Some 1700000000000) [page_200 full_page])) =
       [Between 1500000000000 1700000000000 ''BTC-PERPETUAL'',
        Between 1600000000000 1700000000000 ''BTC-PERPETUAL'']
   \<and> requests (fst (trades_loop seconds ''BTC-PERPETUAL'' None 10
        (Some 1500000000000) (Some 1700000000000) [page_200 short_page, page_200 full_page])) =
       [Between 1500000000000 1700000000000 ''BTC-PERPETUAL'']
   \<and> snd (trades_loop seconds ''BTC-PERPETUAL'' None 10
        (Some 1500000000000) (Some 1700000000000) [page_200 short_page, page_200 full_page])
       = Returned ()
   \<and> snd (trades_loop seconds ''BTC-PERPETUAL'' None 10 None None
        [trades_429, trades_500, page_200 full_page, page_200 full_page]) = Returned ()
   \<and> map length (pages (fst (trades_loop seconds ''BTC-PERPETUAL'' None 10 None None
        [trades_429, trades_500, page_200 full_page, page_200 full_page]))) = [1000]"
proof -
  have pre: "\<forall>q\<in>set [trades_429, trades_500]. retriable 10 q"
    by (simp add: samples_retriable)
  have adv: "advance (Some 1500000000000) (Some 1700000000000) full_page = ([], Some 1600000000000)"
    by (simp add: advance_def full_page_facts sample_timestamp)
  have adv_short:
    "advance (Some 1500000000000) (Some 1700000000000) short_page = ([], Some 1600000000000)"
    by (simp add: advance_def short_page_200 sample_timestamp)
  from pagination_stops_iff [OF full_page_200(1) full_page_200(3),
      of "''BTC-PERPETUAL''" None 10 "Some 1500000000000" "Some 1700000000000" "[]"
         "[trades_429, trades_500]"]
  have a: "trades_loop seconds ''BTC-PERPETUAL'' None 10 (Some 1500000000000) (Some 1700000000000)
        [page_200 full_page] =
      prepend ([Request (Between 1500000000000 1700000000000 ''BTC-PERPETUAL''),
                Sleep RATE_LIMIT_SLEEP,
                Yield (replicate 1000 \<lparr> t_timestamp = 1600000000, t_symbol = ''BTC-PERPETUAL'',
                   t_id = 48079254, t_feed = DERIBIT, t_side = BUY, t_amount = 10, t_price = 9000 \<rparr>)])
        (trades_loop seconds ''BTC-PERPETUAL'' None 10 (Some 1600000000000) (Some 1700000000000) [])"
    by (simp add: full_page_200 adv full_page_facts REQUEST_LIMIT_def)
  from pagination_stops_iff [OF short_page_200(1) short_page_200(6),
      of "''BTC-PERPETUAL''" None 10 "Some 1500000000000" "Some 1700000000000"
         "[page_200 full_page]" "[]"]
  have s: "trades_loop seconds ''BTC-PERPETUAL'' None 10 (Some 1500000000000) (Some 1700000000000)
        [page_200 short_page, page_200 full_page] =
      ([Request (Between 1500000000000 1700000000000 ''BTC-PERPETUAL''),
        Sleep RATE_LIMIT_SLEEP,
        Yield (replicate 999 \<lparr> t_timestamp = 1600000000, t_symbol = ''BTC-PERPETUAL'',
                   t_id = 48079254, t_feed = DERIBIT, t_side = BUY, t_amount = 10, t_price = 9000 \<rparr>)],
       Returned ())"
    by (simp add: short_page_200 adv_short REQUEST_LIMIT_def)
  from pagination_stops_iff [OF full_page_200(1) full_page_200(3),
      of "''BTC-PERPETUAL''" None 10 None None "[page_200 full_page]"
         "[trades_429, trades_500]"] pre
  have b: "snd (trades_loop seconds ''BTC-PERPETUAL'' None 10 None None
        [trades_429, trades_500, page_200 full_page, page_200 full_page]) = Returned ()
     \<and> pages (fst (trades_loop seconds ''BTC-PERPETUAL'' None 10 None None
        [trades_429, trades_500, page_200 full_page, page_200 full_page])) =
       [replicate 1000 \<lparr> t_timestamp = 1600000000, t_symbol = ''BTC-PERPETUAL'',
                   t_id = 48079254, t_feed = DERIBIT, t_side = BUY, t_amount = 10, t_price = 9000 \<rparr>]"
    by simp
  show ?thesis
    by (simp add: a s b full_page_200(1))
qed

section \<open>A window that starts at the epoch\<close>

lemma later_page_200:
  "status_code (page_200 [later_trade]) = 200"
  "body (page_200 [later_trade]) = [later_trade]"
  "normalize_page seconds (body (page_200 [later_trade])) =
     Inr [\<lparr> t_timestamp = 3200000001 / 2, t_symbol = ''BTC-PERPETUAL'', t_id = 48079255,
           t_feed = DERIBIT, t_side = SELL, t_amount = 20, t_price = 9001 \<rparr>]"
  by (simp_all add: page_200_def later_normalized)

lemma epoch_run:
  "trades_loop seconds ''BTC-PERPETUAL'' None 10 (Some 0) (Some 1700000000000)
       [page_200 full_page, page_200 [later_trade]] =
     ([Request (Last ''BTC-PERPETUAL''), Sleep RATE_LIMIT_SLEEP,
       Yield (replicate 1000 \<lparr> t_timestamp = 1600000000, t_symbol = ''BTC-PERPETUAL'',
                   t_id = 48079254, t_feed = DERIBIT, t_side = BUY, t_amount = 10, t_price = 9000 \<rparr>),
       Request (Between 1600000000000 1700000000000 ''BTC-PERPETUAL''), Sleep RATE_LIMIT_SLEEP,
       Yield [\<lparr> t_timestamp = 3200000001 / 2, t_symbol = ''BTC-PERPETUAL'', t_id = 48079255,
           t_feed = DERIBIT, t_side = SELL, t_amount = 20, t_price = 9001 \<rparr>]],
      Returned ())"
proof -
  have adv: "advance (Some 0) (Some 1700000000000) full_page = ([], Some 1600000000000)"
    by (simp add: advance_def full_page_facts sample_timestamp)
  have adv2: "advance (Some 1600000000000) (Some 1700000000000) [later_trade]
                = ([], Some 1600000000500)"
    by (simp add: advance_def later_trade_def)
  show ?thesis
    by (simp add: trades_loop_200 [OF full_page_200(1) full_page_200(3)]
          trades_loop_200 [OF later_page_200(1) later_page_200(3)]
          full_page_200(2) later_page_200(2) adv adv2 full_page_facts REQUEST_LIMIT_def)
qed

lemma no_bound_run:
  "trades_loop seconds ''BTC-PERPETUAL'' None 10 None None
       [page_200 full_page, page_200 [later_trade]] =
     ([Request (Last ''BTC-PERPETUAL''), Sleep RATE_LIMIT_SLEEP,
       Yield (replicate 1000 \<lparr> t_timestamp = 1600000000, t_symbol = ''BTC-PERPETUAL'',
                   t_id = 48079254, t_feed = DERIBIT, t_side = BUY, t_amount = 10, t_price = 9000 \<rparr>)],
      Returned ())"
proof -
  have adv: "advance None None full_page = ([], Some 1600000000000)"
    by (simp add: advance_def full_page_facts sample_timestamp)
  show ?thesis
    by (simp add: trades_loop_200 [OF full_page_200(1) full_page_200(3)]
          full_page_200(2) adv full_page_facts REQUEST_LIMIT_def)
qed

text \<open>
  Claim C10 as stated does not hold. With the start cursor 0 and an end bound, the first
  query is the unbounded one, but the run does not stop after one page as the run
  without bounds does: when the first page is full, the cursor takes the timestamp of
  its last trade, which is true, and a second query goes out with both time parameters.
\<close>

theorem epoch_start_counterexample:
  "requests (fst (trades_loop seconds ''BTC-PERPETUAL'' None 10 (Some 0) (Some 1700000000000)
       [page_200 full_page, page_200 [later_trade]])) =
     [Last ''BTC-PERPETUAL'', Between 1600000000000 1700000000000 ''BTC-PERPETUAL'']
   \<and> map length (pages (fst (trades_loop seconds ''BTC-PERPETUAL'' None 10 (Some 0)
       (Some 1700000000000) [page_200 full_page, page_200 [later_trade]]))) = [1000, 1]
   \<and> requests (fst (trades_loop seconds ''BTC-PERPETUAL'' None 10 None None
       [page_200 full_page, page_200 [later_trade]])) = [Last ''BTC-PERPETUAL'']
   \<and> map length (pages (fst (trades_loop seconds ''BTC-PERPETUAL'' None 10 None None
       [page_200 full_page, page_200 [later_trade]]))) = [1000]"
  by (simp add: epoch_run no_bound_run)

text \<open>
  Claim C10, amended. The bounds are tested by truth value: with a start cursor of 0 the
  first query is sent in the unbounded form, without time parameters. The run ends after
  that page when the raw page has fewer than 1000 trades or the end bound is \<^verbatim>\<open>None\<close> or
  0. After a full page with a true end bound it goes on: the cursor is the timestamp of
  the last raw trade (1 when that is 0) and the next query is the time-bounded one from
  that cursor.
\<close>

theorem epoch_start:
  fixes "end" :: "int option" and instrument :: string
  assumes ok: "status_code r = 200" and norm: "normalize_page tn (body r) = Inr page"
  defines "data \<equiv> body r"
  defines "evs \<equiv> [Request (Last instrument), Sleep RATE_LIMIT_SLEEP]
                    @ map Warning (fst (advance (Some 0) end data)) @ [Yield page]"
  defines "cursor \<equiv> (if timestamp (last data) = 0 then 1 else timestamp (last data))"
  shows "helper instrument (Some 0) end = Last instrument
       \<and> (length data < REQUEST_LIMIT \<or> \<not> truthy end \<longrightarrow>
            trades_loop tn instrument retry retry_wait (Some 0) end (r # rs) = (evs, Returned ()))
       \<and> (REQUEST_LIMIT \<le> length data \<and> truthy end \<longrightarrow>
            trades_loop tn instrument retry retry_wait (Some 0) end (r # rs) =
              prepend evs (trades_loop tn instrument retry retry_wait (Some cursor) end rs)
            \<and> (\<exists>e rest. end = Some e
                \<and> fst (trades_loop tn instrument retry retry_wait (Some cursor) end rs) =
                    Request (Between cursor e instrument) # rest))"
proof (intro conjI impI)
  show first: "helper instrument (Some 0) end = Last instrument"
    by (cases "end") simp_all
  have step: "trades_loop tn instrument retry retry_wait (Some 0) end (r # rs) =
      (if length data < REQUEST_LIMIT \<or> \<not> truthy (snd (advance (Some 0) end data)) \<or> \<not> truthy end
       then (evs, Returned ())
       else prepend evs
              (trades_loop tn instrument retry retry_wait (snd (advance (Some 0) end data)) end rs))"
    unfolding evs_def data_def first [symmetric] by (rule trades_loop_200 [OF ok norm])
  show "trades_loop tn instrument retry retry_wait (Some 0) end (r # rs) = (evs, Returned ())"
    if "length data < REQUEST_LIMIT \<or> \<not> truthy end"
    using that step by auto
  assume full: "REQUEST_LIMIT \<le> length data \<and> truthy end"
  then have "data \<noteq> []" by (auto simp add: REQUEST_LIMIT_def)
  then have adv: "snd (advance (Some 0) end data) = Some cursor" and nz: "cursor \<noteq> 0"
    by (auto simp add: advance_def cursor_def)
  show "trades_loop tn instrument retry retry_wait (Some 0) end (r # rs) =
          prepend evs (trades_loop tn instrument retry retry_wait (Some cursor) end rs)"
    using step full nz by (simp add: adv)
  from full obtain e where e: "end = Some e" "e \<noteq> 0" by (cases "end") auto
  obtain rest where "fst (trades_loop tn instrument retry retry_wait (Some cursor) end rs) =
      Request (helper instrument (Some cursor) end) # rest"
    using trades_loop_starts by blast
  with e nz show "\<exists>e rest. end = Some e
      \<and> fst (trades_loop tn instrument retry retry_wait (Some cursor) end rs) =
          Request (Between cursor e instrument) # rest"
    by simp
qed

theorem epoch_start_witness:
  "status_code (page_200 full_page) = 200
   \<and> trades_loop seconds ''BTC-PERPETUAL'' None 10 (Some 0) (Some 1700000000000)
       [page_200 full_page] =
     ([Request (Last ''BTC-PERPETUAL''), Sleep RATE_LIMIT_SLEEP,
       Yield (replicate 1000 \<lparr> t_timestamp = 1600000000, t_symbol = ''BTC-PERPETUAL'',
                   t_id = 48079254, t_feed = DERIBIT, t_side = BUY, t_amount = 10, t_price = 9000 \<rparr>),
       Request (Between 1600000000000 1700000000000 ''BTC-PERPETUAL'')],
      Awaiting)"
proof -
  have adv: "advance (Some 0) (Some 1700000000000) full_page = ([], Some 1600000000000)"
    by (simp add: advance_def full_page_facts sample_timestamp)
  show ?thesis
    using epoch_start [OF full_page_200(1) full_page_200(3),
        of "''BTC-PERPETUAL''" "Some 1700000000000" None 10 "[]"]
    by (simp add: full_page_200 adv full_page_facts sample_timestamp REQUEST_LIMIT_def)
qed

section \<open>The order-book snapshot\<close>

lemma setitem_keys: "fst ` set (setitem k v d) = insert k (fst ` set d)"
  by (induction d) (auto split: if_splits, force+)

lemma setitem_above:
  "\<forall>x\<in>set d. k' < fst x \<Longrightarrow> k' < k \<Longrightarrow> \<forall>x\<in>set (setitem k v d). k' < fst x"
  by (induction d) (fastforce split: if_splits)+

lemma setitem_sorted:
  "sorted_wrt (<) (map fst d) \<Longrightarrow> sorted_wrt (<) (map fst (setitem k v d))"
proof (induction d)
  case Nil
  show ?case by simp
next
  case (Cons x d)
  obtain k' v' where x: "x = (k', v')" by (cases x)
  from Cons.prems have above: "\<forall>y\<in>set (map fst d). k' < y" and sorted: "sorted_wrt (<) (map fst d)"
    by (simp_all add: x)
  show ?case
  proof (cases "k < k'")
    case True
    with above have "\<forall>y\<in>set (map fst d). k < y" by auto
    with True above sorted show ?thesis by (simp add: x)
  next
    case False
    show ?thesis
    proof (cases "k = k'")
      case True
      with above sorted show ?thesis by (simp add: x)
    next
      case False
      with \<open>\<not> k < k'\<close> have "k' < k" by simp
      with above have "\<forall>y\<in>set (map fst (setitem k v d)). k' < y"
        by (simp add: setitem_above)
      with False \<open>\<not> k < k'\<close> Cons.IH [OF sorted] show ?thesis
        by (simp add: x)
    qed
  qed
qed

lemma setitem_map_of:
  "sorted_wrt (<) (map fst d) \<Longrightarrow> map_of (setitem k v d) = (map_of d)(k \<mapsto> v)"
proof (induction d)
  case Nil
  show ?case by simp
next
  case (Cons x d)
  obtain k' v' where x: "x = (k', v')" by (cases x)
  from Cons.prems have sorted: "sorted_wrt (<) (map fst d)" by simp
  show ?case
  proof (cases "k < k'")
    case True
    then show ?thesis by (simp add: x fun_eq_iff)
  next
    case False
    show ?thesis
    proof (cases "k = k'")
      case True
      then show ?thesis by (simp add: x fun_eq_iff)
    next
      case False
      with \<open>\<not> k < k'\<close> Cons.IH [OF sorted] show ?thesis
        by (auto simp add: x fun_upd_twist)
    qed
  qed
qed

lemma fill_sorted:
  "sorted_wrt (<) (map fst d) \<Longrightarrow> sorted_wrt (<) (map fst (fill entries d))"
  by (induction entries d rule: fill.induct) (simp_all add: setitem_sorted)

lemma fill_keys: "fst ` set (fill entries d) = fst ` set entries \<union> fst ` set d"
  by (induction entries d rule: fill.induct) (simp_all add: setitem_keys)

lemma fill_map_of:
  "sorted_wrt (<) (map fst d) \<Longrightarrow> map_of (fill entries d) = map_of d ++ map_of (rev entries)"
proof (induction entries d rule: fill.induct)
  case (1 d)
  show ?case by simp
next
  case (2 p a entries d)
  from 2 have "map_of (fill entries (setitem p a d)) = map_of (setitem p a d) ++ map_of (rev entries)"
    by (simp add: setitem_sorted)
  also have "\<dots> = (map_of d)(p \<mapsto> a) ++ map_of (rev entries)"
    by (simp add: setitem_map_of [OF "2.prems"])
  also have "\<dots> = map_of d ++ map_of (rev ((p, a) # entries))"
    by (simp add: map_add_upd_left map_add_assoc [symmetric]) 
  finally show ?case by simp
qed


lemma last_write_wins:
  "p \<notin> fst ` set ys \<Longrightarrow> map_of (rev (xs @ (p, a) # ys)) p = Some a"
  by (simp add: map_add_Some_iff map_of_eq_None_iff)

lemma fill_sd:
  "sorted_wrt (<) (map fst (fill entries sd))"
  "fst ` set (fill entries sd) = fst ` set entries"
  "getitem (fill entries sd) = map_of (rev entries)"
proof -
  show "sorted_wrt (<) (map fst (fill entries sd))"
    by (rule fill_sorted) (simp add: sd_def)
  show "fst ` set (fill entries sd) = fst ` set entries"
    by (simp add: fill_keys sd_def)
  have "map_of (fill entries sd) = map_of sd ++ map_of (rev entries)"
    by (rule fill_map_of) (simp add: sd_def)
  then show "getitem (fill entries sd) = map_of (rev entries)"
    by (simp add: getitem_def fun_eq_iff sd_def)
qed

text \<open>
  Claim C7. For a 200 response, \<^verbatim>\<open>_book\<close> returns the snapshot with the one symbol,
  whose bid and ask dictionaries have as keys exactly the prices in the response's
  \<^verbatim>\<open>bids\<close> and \<^verbatim>\<open>asks\<close> lists, each once; every price is mapped to the amount paired
  with it, the last pair winning where a price repeats; and the items of each
  dictionary are in strictly ascending order of price.
\<close>

theorem book_snapshot:
  assumes ok: "status_code r = 200"
  shows "\<exists>S. book exchange_symbol symbol retry retry_wait (r # rs) =
               ([Request (OrderBook (exchange_symbol symbol))],
                Returned [exchange_symbol symbol \<mapsto> S])
           \<and> fst ` set (BID S) = fst ` set (bids (body r))
           \<and> fst ` set (ASK S) = fst ` set (asks (body r))
           \<and> getitem (BID S) = map_of (rev (bids (body r)))
           \<and> getitem (ASK S) = map_of (rev (asks (body r)))
           \<and> (\<forall>xs p a ys. bids (body r) = xs @ (p, a) # ys \<and> p \<notin> fst ` set ys
                  \<longrightarrow> getitem (BID S) p = Some a)
           \<and> (\<forall>xs p a ys. asks (body r) = xs @ (p, a) # ys \<and> p \<notin> fst ` set ys
                  \<longrightarrow> getitem (ASK S) p = Some a)
           \<and> sorted_wrt (<) (map fst (BID S)) \<and> distinct (map fst (BID S))
           \<and> sorted_wrt (<) (map fst (ASK S)) \<and> distinct (map fst (ASK S))"
proof (intro exI [of _ "\<lparr> BID = fill (bids (body r)) sd, ASK = fill (asks (body r)) sd \<rparr>"] conjI)
  show "book exchange_symbol symbol retry retry_wait (r # rs) =
          ([Request (OrderBook (exchange_symbol symbol))],
           Returned [exchange_symbol symbol \<mapsto>
             \<lparr> BID = fill (bids (body r)) sd, ASK = fill (asks (body r)) sd \<rparr>])"
    by (rule book_at_200 [OF ok])
qed (auto simp add: fill_sd last_write_wins strict_sorted_iff [THEN iffD1] simp del: map_of_append rev_append)

theorem book_snapshot_witness:
  "status_code book_200 = 200
   \<and> snapshot (l2_book id ''BTC-PERPETUAL'' (Some 0) 0 [book_200]) ''BTC-PERPETUAL''
       = Some \<lparr> BID = [(8998, 2), (8999, 2), (9000, 5)], ASK = [(9001, 4), (9002, 1)] \<rparr>
   \<and> getitem [(8998, 2), (8999, 2), (9000, 5)] 9000 = Some 5"
proof -
  have a: "status_code book_200 = 200" by (simp add: book_200_def)
  from book_snapshot [OF a, of id "''BTC-PERPETUAL''" "Some 0" 0 "[]"]
  obtain S where S: "book id ''BTC-PERPETUAL'' (Some 0) 0 [book_200] =
      ([Request (OrderBook ''BTC-PERPETUAL'')], Returned [''BTC-PERPETUAL'' \<mapsto> S])"
    by auto
  have "snapshot (book id ''BTC-PERPETUAL'' (Some 0) 0 [book_200]) ''BTC-PERPETUAL'' = Some S"
    by (simp add: S snapshot_def)
  moreover have "snapshot (book id ''BTC-PERPETUAL'' (Some 0) 0 [book_200]) ''BTC-PERPETUAL''
       = Some \<lparr> BID = [(8998, 2), (8999, 2), (9000, 5)], ASK = [(9001, 4), (9002, 1)] \<rparr>"
    by (simp add: loop_simps book_def book_200_def snapshot_def sd_def Let_def)
  ultimately show ?thesis
    by (simp add: a l2_book_def getitem_def)
qed

section \<open>The bounds of the window\<close>

lemma floor_numeral_div:
  "\<lfloor>(numeral a :: rat) / numeral b\<rfloor> = numeral a div numeral b"
  using floor_divide_of_int_eq [of "numeral a" "numeral b", where ?'a = rat] by simp

lemmas float_defs = float64_def binade_def pow2_def round_half_even_def Let_def
  bitlen.simps floor_numeral_div

text \<open>
  The end instant 2023-11-14 22:13:20 UTC is 1700000000 seconds after the epoch. One
  nanosecond less is no float: the nearest one is the count of the instant itself.
\<close>

lemma float64_samples:
  "float64 1699999999999999999 = 1700000000000000000"
  "float64 1700000000000000000 = 1700000000000000000"
  "float64 1699999000000000000 = 1699999000000000000"
  "float64 1700000000 = 1700000000"
  "float64 1699999000 = 1699999000"
  "float64 1700000000000 = 1700000000000"
  "float64 1699999000000 = 1699999000000"
  "float64 (1 / 10) = 3602879701896397 / 36028797018963968"
  by (simp_all add: float_defs)

lemma epoch_ms_samples:
  "epoch_ms 1699999999999999999 = 1700000000000"
  "epoch_ms 1700000000000000000 = 1700000000000"
  "epoch_ms 1699999000000000000 = 1699999000000"
  by (simp_all add: epoch_ms_def pd_timestamp_def py_round6_def py_trunc_def float64_samples
        round_half_even_def)

text \<open>
  Later versions of pandas divide the count by the integer \<^verbatim>\<open>10 ** 9\<close>, which rounds the
  exact quotient once. The nanosecond is lost there too.
\<close>

lemma pd_timestamp_integer_division:
  "py_round6 (float64 (1699999999999999999 / 1000000000)) = 1700000000"
  by (simp add: py_round6_def float_defs)

text \<open>
  Claim C9 on the code. With a start bound, a missing end is resolved to the current
  time, the end is reduced by one nanosecond, and both bounds are converted to integer
  milliseconds, as the claim says. The conversion loses the nanosecond: for the window
  from 2023-11-14 21:56:40 to 2023-11-14 22:13:20 the end bound sent is 1700000000000,
  the millisecond of the end instant itself, and not 1699999999999. The window the
  server gets is closed at the end instant, not half-open: a trade stamped
  1700000000000 is inside this window and inside the next one that starts there.
\<close>

theorem window_end_not_reduced:
  "window (\<lambda>ns. ns) now epoch_ms (Some 1699999000000000000) (Some 1700000000000000000)
     = (Some 1699999000000, Some 1700000000000)
   \<and> window (\<lambda>ns. ns) 1700000000000000000 epoch_ms (Some 1699999000000000000) None
     = (Some 1699999000000, Some 1700000000000)
   \<and> epoch_ms (1700000000000000000 - 1) = epoch_ms 1700000000000000000
   \<and> requests (fst (get_trades (\<lambda>ns. ns) now epoch_ms tn instrument
        (Some 1699999000000000000) (Some 1700000000000000000) retry retry_wait []))
     = [Between 1699999000000 1700000000000 instrument]"
  by (simp add: window_def get_trades_def epoch_ms_samples)

theorem window_end_not_reduced_witness:
  "requests (fst (get_trades (\<lambda>ns. ns) 1700000000000000000 epoch_ms seconds ''BTC-PERPETUAL''
        (Some 1699999000000000000) None None 10 []))
     = [Between 1699999000000 1700000000000 ''BTC-PERPETUAL'']
   \<and> epoch_ms 1699999999999999999 = 1700000000000"
  using window_end_not_reduced [of 1700000000000000000 seconds "''BTC-PERPETUAL''" None 10]
  by (simp add: window_def get_trades_def epoch_ms_samples)

end
